theory Spec2Isabelle
  imports Complex_Main "HOL-Library.Word"
begin

section \<open>Values exchanged with the gateway\<close>

text \<open>
  A decoded JSON value, as \<^verbatim>\<open>json.loads\<close> returns it. Python's \<^verbatim>\<open>None\<close> is
  \<open>JNull\<close>, a \<^verbatim>\<open>dict\<close> is an association list in insertion order. A finite Python
  float is the real number it denotes; a float that may be NaN is a \<open>real option\<close> with
  \<open>None\<close> for NaN. Comparing two floats is exact. Arithmetic on floats rounds, and is
  taken from the platform (see \<open>externals\<close> below).
\<close>

datatype json =
    JNull
  | JBool bool
  | JInt int
  | JFloat real
  | JStr string
  | JArr "json list"
  | JObj "(string \<times> json) list"

type_synonym byte = "8 word"

datatype websocket_message =
    BINARY "byte list"
  | TEXT string
  | CLOSE int
  | CLOSING
  | CLOSED
  | OTHER

text \<open>
  Exceptions are values. The first block is raised by \<^verbatim>\<open>gateway.py\<close>, the second by
  the Python runtime and the libraries it calls, the third is what the supervisor of
  \<^verbatim>\<open>shards.py\<close> catches. \<open>GatewayServerClosedConnectionError\<close> carries the five
  positional arguments of the raise statement:
  reason, close code, can_reconnect, \<^verbatim>\<open>False\<close>, \<^verbatim>\<open>True\<close>.
\<close>

datatype error =
    GatewayError string
  | GatewayServerClosedConnectionError string int bool bool bool
  | GatewayClientClosedError
  | InvalidSession json
  | Reconnect
  | SocketClosed
  | ClientConnectorError
  | WSServerHandshakeError
  | KeyError string
  | TypeError
  | AttributeError
  | ValueError
  | OverflowError
  | TimeoutError
  | JSONDecodeError
  | ZlibError
  | ConnectionResetError
  | CancelledError
  | GatewayZombiedError
  | GatewayInvalidSessionError bool
  | GatewayMustReconnectError
  | GatewayClientDisconnectedError

type_synonym pyfloat = "real option"

definition flt :: "pyfloat \<Rightarrow> pyfloat \<Rightarrow> bool" where
  "flt a b = (case a of None \<Rightarrow> False | Some x \<Rightarrow> (case b of None \<Rightarrow> False | Some y \<Rightarrow> x < y))"

definition isnan :: "pyfloat \<Rightarrow> bool" where
  "isnan a = (a = None)"

text \<open>Subscription \<^verbatim>\<open>obj[key]\<close> with a string key: only a dict accepts it.\<close>

fun getitem :: "json \<Rightarrow> string \<Rightarrow> error + json" where
  "getitem (JObj kvs) k = (case map_of kvs k of None \<Rightarrow> Inl (KeyError k) | Some v \<Rightarrow> Inr v)"
| "getitem v k = Inl TypeError"

text \<open>
  \<^verbatim>\<open>value == n\<close> for an integer enum member \<open>n\<close>: Python compares numbers by value and
  \<^verbatim>\<open>bool\<close> is a subclass of \<^verbatim>\<open>int\<close>.
\<close>

fun py_eq_int :: "json \<Rightarrow> int \<Rightarrow> bool" where
  "py_eq_int (JInt i) n = (i = n)"
| "py_eq_int (JFloat r) n = (r = of_int n)"
| "py_eq_int (JBool b) n = ((if b then 1 else 0) = n)"
| "py_eq_int v n = False"

fun py_eq_str :: "json \<Rightarrow> string \<Rightarrow> bool" where
  "py_eq_str (JStr s) t = (s = t)"
| "py_eq_str v t = False"

fun py_truthy :: "json \<Rightarrow> bool" where
  "py_truthy JNull = False"
| "py_truthy (JBool b) = b"
| "py_truthy (JInt i) = (i \<noteq> 0)"
| "py_truthy (JFloat r) = (r \<noteq> 0)"
| "py_truthy (JStr s) = (s \<noteq> [])"
| "py_truthy (JArr xs) = (xs \<noteq> [])"
| "py_truthy (JObj kvs) = (kvs \<noteq> [])"

section \<open>Close codes and opcodes\<close>

definition RFC_6455_NORMAL_CLOSURE :: int where "RFC_6455_NORMAL_CLOSURE = 1000"
definition RFC_6455_GOING_AWAY :: int where "RFC_6455_GOING_AWAY = 1001"
definition RFC_6455_PROTOCOL_ERROR :: int where "RFC_6455_PROTOCOL_ERROR = 1002"
definition RFC_6455_TYPE_ERROR :: int where "RFC_6455_TYPE_ERROR = 1003"
definition RFC_6455_ENCODING_ERROR :: int where "RFC_6455_ENCODING_ERROR = 1007"
definition RFC_6455_POLICY_VIOLATION :: int where "RFC_6455_POLICY_VIOLATION = 1008"
definition RFC_6455_TOO_BIG :: int where "RFC_6455_TOO_BIG = 1009"
definition RFC_6455_UNEXPECTED_CONDITION :: int where "RFC_6455_UNEXPECTED_CONDITION = 1011"
definition DO_NOT_INVALIDATE_SESSION :: int where "DO_NOT_INVALIDATE_SESSION = 3000"
definition UNKNOWN_ERROR :: int where "UNKNOWN_ERROR = 4000"
definition UNKNOWN_OPCODE :: int where "UNKNOWN_OPCODE = 4001"
definition DECODE_ERROR :: int where "DECODE_ERROR = 4002"
definition NOT_AUTHENTICATED :: int where "NOT_AUTHENTICATED = 4003"
definition AUTHENTICATION_FAILED :: int where "AUTHENTICATION_FAILED = 4004"
definition ALREADY_AUTHENTICATED :: int where "ALREADY_AUTHENTICATED = 4005"
definition INVALID_SEQ :: int where "INVALID_SEQ = 4007"
definition RATE_LIMITED :: int where "RATE_LIMITED = 4008"
definition SESSION_TIMEOUT :: int where "SESSION_TIMEOUT = 4009"
definition INVALID_SHARD :: int where "INVALID_SHARD = 4010"
definition SHARDING_REQUIRED :: int where "SHARDING_REQUIRED = 4011"
definition INVALID_VERSION :: int where "INVALID_VERSION = 4012"
definition INVALID_INTENT :: int where "INVALID_INTENT = 4013"
definition DISALLOWED_INTENT :: int where "DISALLOWED_INTENT = 4014"

lemmas close_code_defs =
  RFC_6455_NORMAL_CLOSURE_def RFC_6455_GOING_AWAY_def RFC_6455_PROTOCOL_ERROR_def
  RFC_6455_TYPE_ERROR_def RFC_6455_ENCODING_ERROR_def RFC_6455_POLICY_VIOLATION_def
  RFC_6455_TOO_BIG_def RFC_6455_UNEXPECTED_CONDITION_def DO_NOT_INVALIDATE_SESSION_def
  UNKNOWN_ERROR_def UNKNOWN_OPCODE_def DECODE_ERROR_def NOT_AUTHENTICATED_def
  AUTHENTICATION_FAILED_def ALREADY_AUTHENTICATED_def INVALID_SEQ_def RATE_LIMITED_def
  SESSION_TIMEOUT_def INVALID_SHARD_def SHARDING_REQUIRED_def INVALID_VERSION_def
  INVALID_INTENT_def DISALLOWED_INTENT_def

text \<open>The members of \<^verbatim>\<open>_GatewayCloseCode\<close> with their names, in declaration order.\<close>

definition GatewayCloseCode_members :: "(int \<times> string) list" where
  "GatewayCloseCode_members =
    [(RFC_6455_NORMAL_CLOSURE, ''RFC_6455_NORMAL_CLOSURE''),
     (RFC_6455_GOING_AWAY, ''RFC_6455_GOING_AWAY''),
     (RFC_6455_PROTOCOL_ERROR, ''RFC_6455_PROTOCOL_ERROR''),
     (RFC_6455_TYPE_ERROR, ''RFC_6455_TYPE_ERROR''),
     (RFC_6455_ENCODING_ERROR, ''RFC_6455_ENCODING_ERROR''),
     (RFC_6455_POLICY_VIOLATION, ''RFC_6455_POLICY_VIOLATION''),
     (RFC_6455_TOO_BIG, ''RFC_6455_TOO_BIG''),
     (RFC_6455_UNEXPECTED_CONDITION, ''RFC_6455_UNEXPECTED_CONDITION''),
     (DO_NOT_INVALIDATE_SESSION, ''DO_NOT_INVALIDATE_SESSION''),
     (UNKNOWN_ERROR, ''UNKNOWN_ERROR''),
     (UNKNOWN_OPCODE, ''UNKNOWN_OPCODE''),
     (DECODE_ERROR, ''DECODE_ERROR''),
     (NOT_AUTHENTICATED, ''NOT_AUTHENTICATED''),
     (AUTHENTICATION_FAILED, ''AUTHENTICATION_FAILED''),
     (ALREADY_AUTHENTICATED, ''ALREADY_AUTHENTICATED''),
     (INVALID_SEQ, ''INVALID_SEQ''),
     (RATE_LIMITED, ''RATE_LIMITED''),
     (SESSION_TIMEOUT, ''SESSION_TIMEOUT''),
     (INVALID_SHARD, ''INVALID_SHARD''),
     (SHARDING_REQUIRED, ''SHARDING_REQUIRED''),
     (INVALID_VERSION, ''INVALID_VERSION''),
     (INVALID_INTENT, ''INVALID_INTENT''),
     (DISALLOWED_INTENT, ''DISALLOWED_INTENT'')]"

definition DISPATCH :: int where "DISPATCH = 0"
definition HEARTBEAT :: int where "HEARTBEAT = 1"
definition IDENTIFY :: int where "IDENTIFY = 2"
definition PRESENCE_UPDATE :: int where "PRESENCE_UPDATE = 3"
definition VOICE_STATE_UPDATE :: int where "VOICE_STATE_UPDATE = 4"
definition RESUME :: int where "RESUME = 6"
definition RECONNECT :: int where "RECONNECT = 7"
definition REQUEST_GUILD_MEMBERS :: int where "REQUEST_GUILD_MEMBERS = 8"
definition INVALID_SESSION :: int where "INVALID_SESSION = 9"
definition HELLO :: int where "HELLO = 10"
definition HEARTBEAT_ACK :: int where "HEARTBEAT_ACK = 11"

lemmas opcode_defs =
  DISPATCH_def HEARTBEAT_def IDENTIFY_def PRESENCE_UPDATE_def VOICE_STATE_UPDATE_def
  RESUME_def RECONNECT_def REQUEST_GUILD_MEMBERS_def INVALID_SESSION_def HELLO_def
  HEARTBEAT_ACK_def

text \<open>\<^verbatim>\<open>str(n)\<close> for an integer, used by the f-string of the unknown close code.\<close>

fun str_nat :: "nat \<Rightarrow> string" where
  "str_nat n = (if n < 10 then [char_of (48 + n)] else str_nat (n div 10) @ [char_of (48 + n mod 10)])"

definition str_int :: "int \<Rightarrow> string" where
  "str_int i = (if i < 0 then CHR ''-'' # str_nat (nat (- i)) else str_nat (nat i))"

section \<open>The state of a \<^verbatim>\<open>Gateway\<close>\<close>

text \<open>
  \<^verbatim>\<open>Activity\<close> is the attrs class of \<^verbatim>\<open>gateway.py\<close>; the activity type is kept as
  the integer its enum converts to. A \<^verbatim>\<open>datetime\<close> is represented by what
  \<^verbatim>\<open>.timestamp()\<close> returns for it: seconds since the epoch.
\<close>

record Activity =
  name :: string
  url :: "string option"
  type :: int

datatype datetime = Datetime (timestamp: real)

text \<open>
  Modelled from the spec: \<^verbatim>\<open>hikari.models.guilds.PresenceStatus\<close> is defined in a
  module that is not modelled. The specification gives it as the enum
  online/idle/dnd/invisible; \<open>PresenceStatus_value\<close> is the \<^verbatim>\<open>.value\<close> of a member. As an enum member it has the
  attributes \<^verbatim>\<open>name\<close> and \<^verbatim>\<open>value\<close> and no attribute \<^verbatim>\<open>url\<close>.
\<close>

datatype PresenceStatus = ONLINE | IDLE | DND | INVISIBLE

fun PresenceStatus_value :: "PresenceStatus \<Rightarrow> string" where
  "PresenceStatus_value ONLINE = ''online''"
| "PresenceStatus_value IDLE = ''idle''"
| "PresenceStatus_value DND = ''dnd''"
| "PresenceStatus_value INVISIBLE = ''invisible''"

text \<open>\<^verbatim>\<open>typing.Union[unset.Unset, T]\<close>: the marker \<^verbatim>\<open>UNSET\<close> or a value.\<close>

datatype 'a unset_or = UNSET | Given 'a

text \<open>
  What the parameters \<^verbatim>\<open>status\<close> and \<^verbatim>\<open>activity\<close> of \<^verbatim>\<open>_build_presence_payload\<close> can
  hold at run time. Python does not check the annotations, and \<^verbatim>\<open>update_presence\<close>
  passes its arguments by position in another order than the parameters are declared.
\<close>

datatype pyobj = PyNone | PyStatus PresenceStatus | PyActivity Activity

text \<open>
  The effects a gateway has on the outside, in the order they happen:
  a payload handed to \<^verbatim>\<open>ws.send_str\<close> (before \<^verbatim>\<open>json.dumps\<close>), a call of
  \<^verbatim>\<open>ws.close(code, message)\<close>, a task created for the consumer \<^verbatim>\<open>_dispatch(self, event, data)\<close>,
  and a sleep for the delay that \<^verbatim>\<open>next(self._backoff)\<close> returned, tagged with the state
  the back-off was in when it was asked.
\<close>

datatype action =
    SendStr json
  | WsClose int string
  | Dispatch json json
  | BackoffSleep nat

datatype websocket = WebSocket (ws_closed: bool)

text \<open>
  The fields of the class, under their Python names without the leading underscore.
  \<open>backoff\<close> is the state of the \<^verbatim>\<open>ExponentialBackOff\<close> object, advanced by
  \<open>backoff_next\<close>. \<open>zlib\<close> stands for the \<^verbatim>\<open>zlib.decompressobj()\<close>:
  the compressed bytes fed to it so far. Three fields belong to the model only:
  \<open>ticks\<close> counts the calls of \<^verbatim>\<open>time.perf_counter\<close>, \<open>heartbeat_task\<close> says whether the
  task running \<^verbatim>\<open>_pulse\<close> exists and has not finished, \<open>trace\<close> is the log of effects.
\<close>

record Gateway =
  activity :: "Activity option"
  backoff :: nat
  handshake_event :: bool
  idle_since :: "datetime option"
  intents :: "int option"
  is_afk :: "bool option"
  last_run_started_at :: pyfloat
  request_close_event :: bool
  seq :: json
  session_id :: json
  shard_id :: int
  shard_count :: int
  status :: "PresenceStatus option"
  token :: string
  ws :: "websocket option"
  zlib :: "byte list"
  zombied :: bool
  connected_at :: pyfloat
  heartbeat_interval :: pyfloat
  heartbeat_latency :: pyfloat
  last_heartbeat_sent :: pyfloat
  last_message_received :: pyfloat
  large_threshold :: int
  ticks :: nat
  heartbeat_task :: bool
  trace :: "action list"

text \<open>
  What the platform and the libraries compute.
  \<^item> \<open>perf_counter k\<close> is what the \<open>k\<close>-th call of \<^verbatim>\<open>time.perf_counter()\<close> returns.
  \<^item> \<open>float_sub x y\<close> is the float \<^verbatim>\<open>x - y\<close> of two finite floats and \<open>float_div x y\<close> the
    float \<^verbatim>\<open>x / y\<close>: the exact result rounded as the hardware rounds it.
  \<^item> \<open>int_to_float i\<close> is \<^verbatim>\<open>float(i)\<close>, with \<open>None\<close> where the integer is too large and
    Python raises \<^verbatim>\<open>OverflowError\<close>.
  \<^item> \<open>backoff_next b\<close> is \<^verbatim>\<open>next(backoff)\<close> on an \<^verbatim>\<open>ExponentialBackOff\<close> object (its class
    is defined elsewhere) in state \<open>b\<close>: whether the call returns a delay (\<open>True\<close>) or
    raises \<^verbatim>\<open>asyncio.TimeoutError\<close> (\<open>False\<close>), and the state after the call. The state of
    a new object, and the state after \<^verbatim>\<open>reset()\<close>, is 0.
  \<^item> \<open>json_loads\<close> is \<^verbatim>\<open>json.loads\<close>, with \<open>None\<close> where it raises.
  \<^item> \<open>zlib_decompress_decode fed buff\<close> is \<^verbatim>\<open>self._zlib.decompress(buff).decode("utf-8")\<close>
    after the bytes \<open>fed\<close> were fed earlier, with \<open>None\<close> where inflating or decoding raises.
  \<^item> \<open>websocket_triplet\<close> is the value of \<^verbatim>\<open>user_agents.UserAgent().websocket_triplet\<close>.
\<close>

record externals =
  perf_counter :: "nat \<Rightarrow> real"
  float_sub :: "real \<Rightarrow> real \<Rightarrow> real"
  float_div :: "real \<Rightarrow> real \<Rightarrow> real"
  int_to_float :: "int \<Rightarrow> real option"
  backoff_next :: "nat \<Rightarrow> bool \<times> nat"
  json_loads :: "string \<Rightarrow> json option"
  zlib_decompress_decode :: "byte list \<Rightarrow> byte list \<Rightarrow> string option"
  websocket_triplet :: json

text \<open>\<^verbatim>\<open>a - b\<close> on floats: NaN if an operand is NaN, the rounded difference otherwise.\<close>

definition fsub :: "externals \<Rightarrow> pyfloat \<Rightarrow> pyfloat \<Rightarrow> pyfloat" where
  "fsub ext a b =
    (case a of
       None \<Rightarrow> None
     | Some x \<Rightarrow> (case b of None \<Rightarrow> None | Some y \<Rightarrow> Some (float_sub ext x y)))"

text \<open>
  \<^verbatim>\<open>value / 1_000.0\<close>: true division of a number by a float. An \<^verbatim>\<open>int\<close> is converted
  to a float first, which raises if it is too large; \<^verbatim>\<open>True\<close> and \<^verbatim>\<open>False\<close> are 1 and 0.
\<close>

fun py_div_1000 :: "externals \<Rightarrow> json \<Rightarrow> error + real" where
  "py_div_1000 ext (JInt i) =
     (case int_to_float ext i of
        None \<Rightarrow> Inl OverflowError
      | Some x \<Rightarrow> Inr (float_div ext x 1000))"
| "py_div_1000 ext (JFloat r) = Inr (float_div ext r 1000)"
| "py_div_1000 ext (JBool b) = Inr (float_div ext (if b then 1 else 0) 1000)"
| "py_div_1000 ext v = Inl TypeError"

definition now :: "externals \<Rightarrow> Gateway \<Rightarrow> real \<times> Gateway" where
  "now ext s = (perf_counter ext (ticks s), s\<lparr>ticks := Suc (ticks s)\<rparr>)"

text \<open>\<^verbatim>\<open>Gateway.__init__\<close>, for the fields the model keeps.\<close>

definition init :: "Activity option \<Rightarrow> datetime option \<Rightarrow> bool option \<Rightarrow> PresenceStatus option \<Rightarrow>
    int option \<Rightarrow> int \<Rightarrow> int \<Rightarrow> int \<Rightarrow> string \<Rightarrow> Gateway" where
  "init initial_activity initial_idle_since initial_is_afk initial_status intents0
      large_threshold0 shard_id0 shard_count0 token0 =
    \<lparr> activity = initial_activity, backoff = 0, handshake_event = False,
      idle_since = initial_idle_since, intents = intents0, is_afk = initial_is_afk,
      last_run_started_at = None, request_close_event = False, seq = JNull,
      session_id = JNull, shard_id = shard_id0, shard_count = shard_count0,
      status = initial_status, token = token0, ws = None, zlib = [], zombied = False,
      connected_at = None, heartbeat_interval = None, heartbeat_latency = None,
      last_heartbeat_sent = None, last_message_received = None,
      large_threshold = large_threshold0, ticks = 0, heartbeat_task = False, trace = [] \<rparr>"

definition is_alive :: "Gateway \<Rightarrow> bool" where
  "is_alive s = (\<not> isnan (connected_at s))"

section \<open>Sending and closing\<close>

text \<open>
  \<^verbatim>\<open>_send_json\<close>: waiting for the rate limiter changes nothing the model keeps.
  \<^verbatim>\<open>self._ws.send_str\<close> fails when there is no websocket (\<^verbatim>\<open>None\<close> has no such
  attribute) and when the websocket is closed.
\<close>

definition send_json :: "json \<Rightarrow> Gateway \<Rightarrow> (error + unit) \<times> Gateway" where
  "send_json payload s =
    (case ws s of
       None \<Rightarrow> (Inl AttributeError, s)
     | Some w \<Rightarrow>
         if ws_closed w then (Inl ConnectionResetError, s)
         else (Inr (), s\<lparr>trace := trace s @ [SendStr payload]\<rparr>))"

definition close_ws :: "int \<Rightarrow> string \<Rightarrow> Gateway \<Rightarrow> (error + unit) \<times> Gateway" where
  "close_ws code message s =
    (case ws s of
       None \<Rightarrow> (Inl AttributeError, s)
     | Some w \<Rightarrow> (Inr (), s\<lparr>ws := Some (WebSocket True), trace := trace s @ [WsClose code message]\<rparr>))"

text \<open>\<^verbatim>\<open>Gateway.close\<close>, the request of the user to shut down.\<close>

definition close :: "Gateway \<Rightarrow> Gateway" where
  "close s =
    (if \<not> request_close_event s then
       (let s1 = s\<lparr>request_close_event := True\<rparr>
        in if ws s1 \<noteq> None
           then snd (close_ws RFC_6455_NORMAL_CLOSURE ''user shut down application'' s1)
           else s1)
     else s)"

section \<open>Presence\<close>

definition stored_status :: "Gateway \<Rightarrow> pyobj" where
  "stored_status s = (case status s of None \<Rightarrow> PyNone | Some st \<Rightarrow> PyStatus st)"

definition stored_activity :: "Gateway \<Rightarrow> pyobj" where
  "stored_activity s = (case activity s of None \<Rightarrow> PyNone | Some a \<Rightarrow> PyActivity a)"

fun or_stored :: "'a unset_or \<Rightarrow> 'a \<Rightarrow> 'a" where
  "or_stored UNSET stored = stored"
| "or_stored (Given v) stored = v"

text \<open>
  \<^verbatim>\<open>_build_presence_payload(self, idle_since, is_afk, status, activity)\<close>. The
  \<^verbatim>\<open>game\<close> dict is built first: on an object that is not an \<^verbatim>\<open>Activity\<close>, reading
  \<^verbatim>\<open>activity.url\<close> raises. Then the returned dict is built: on an object that is not
  a \<^verbatim>\<open>PresenceStatus\<close>, reading \<^verbatim>\<open>status.value\<close> raises.
\<close>

definition build_presence_payload ::
    "Gateway \<Rightarrow> datetime option unset_or \<Rightarrow> bool option unset_or \<Rightarrow> pyobj unset_or \<Rightarrow>
     pyobj unset_or \<Rightarrow> error + json" where
  "build_presence_payload s idle_since0 is_afk0 status0 activity0 =
    (let idle_since1 = or_stored idle_since0 (idle_since s);
         is_afk1 = or_stored is_afk0 (is_afk s);
         status1 = or_stored status0 (stored_status s);
         activity1 = or_stored activity0 (stored_activity s)
     in case (case activity1 of
                PyNone \<Rightarrow> Inr JNull
              | PyActivity a \<Rightarrow>
                  Inr (JObj [(''name'', JStr (name a)),
                             (''url'', (case url a of None \<Rightarrow> JNull | Some u \<Rightarrow> JStr u)),
                             (''type'', JInt (type a))])
              | PyStatus st \<Rightarrow> Inl AttributeError) of
          Inl e \<Rightarrow> Inl e
        | Inr game \<Rightarrow>
            (case (case status1 of
                     PyNone \<Rightarrow> Inr (PresenceStatus_value ONLINE)
                   | PyStatus st \<Rightarrow> Inr (PresenceStatus_value st)
                   | PyActivity a \<Rightarrow> Inl AttributeError) of
               Inl e \<Rightarrow> Inl e
             | Inr status_value \<Rightarrow>
                 Inr (JObj [(''since'', (case idle_since1 of None \<Rightarrow> JNull
                                          | Some dt \<Rightarrow> JFloat (timestamp dt))),
                            (''afk'', JBool (case is_afk1 of None \<Rightarrow> False | Some b \<Rightarrow> b)),
                            (''status'', JStr status_value),
                            (''game'', game)])))"

fun as_pyobj_status :: "PresenceStatus unset_or \<Rightarrow> pyobj unset_or" where
  "as_pyobj_status UNSET = UNSET"
| "as_pyobj_status (Given st) = Given (PyStatus st)"

fun as_pyobj_activity :: "Activity option unset_or \<Rightarrow> pyobj unset_or" where
  "as_pyobj_activity UNSET = UNSET"
| "as_pyobj_activity (Given None) = Given PyNone"
| "as_pyobj_activity (Given (Some a)) = Given (PyActivity a)"

fun as_optional :: "'a unset_or \<Rightarrow> 'a option unset_or" where
  "as_optional UNSET = UNSET"
| "as_optional (Given v) = Given (Some v)"

text \<open>
  \<^verbatim>\<open>update_presence(self, *, idle_since, is_afk, activity, status)\<close>. The call
  \<^verbatim>\<open>self._build_presence_payload(idle_since, is_afk, activity, status)\<close> is positional:
  the third parameter of the builder, \<^verbatim>\<open>status\<close>, receives \<^verbatim>\<open>activity\<close>, and the
  fourth, \<^verbatim>\<open>activity\<close>, receives \<^verbatim>\<open>status\<close>.
\<close>

definition update_presence ::
    "datetime option unset_or \<Rightarrow> bool unset_or \<Rightarrow> Activity option unset_or \<Rightarrow>
     PresenceStatus unset_or \<Rightarrow> Gateway \<Rightarrow> (error + unit) \<times> Gateway" where
  "update_presence idle_since0 is_afk0 activity0 status0 s =
    (case build_presence_payload s idle_since0 (as_optional is_afk0)
            (as_pyobj_activity activity0) (as_pyobj_status status0) of
       Inl e \<Rightarrow> (Inl e, s)
     | Inr payload \<Rightarrow>
         (case send_json (JObj [(''op'', JInt PRESENCE_UPDATE), (''d'', payload)]) s of
            (Inl e, s1) \<Rightarrow> (Inl e, s1)
          | (Inr u, s1) \<Rightarrow>
              (Inr (),
               s1\<lparr>idle_since := or_stored idle_since0 (idle_since s1),
                  is_afk := or_stored (as_optional is_afk0) (is_afk s1),
                  activity := or_stored activity0 (activity s1),
                  status := or_stored (as_optional status0) (status s1)\<rparr>)))"

text \<open>
  \<^verbatim>\<open>ShardClientImpl._create_presence_pl\<close> of \<^verbatim>\<open>shards.py\<close>, the older builder of the
  same payload. \<^verbatim>\<open>activity.serialize()\<close> is defined elsewhere and is a
  parameter.
\<close>

definition create_presence_pl ::
    "(Activity \<Rightarrow> json) \<Rightarrow> PresenceStatus \<Rightarrow> Activity option \<Rightarrow> datetime option \<Rightarrow> bool \<Rightarrow> json" where
  "create_presence_pl serialize status0 activity0 idle_since0 is_afk0 =
    JObj [(''status'', JStr (PresenceStatus_value status0)),
          (''idle_since'', (case idle_since0 of None \<Rightarrow> JNull
                            | Some dt \<Rightarrow> JFloat (timestamp dt * 1000))),
          (''game'', (case activity0 of None \<Rightarrow> JNull | Some a \<Rightarrow> serialize a)),
          (''afk'', JBool is_afk0)]"

section \<open>The heartbeat task\<close>

text \<open>
  One pass through the \<^verbatim>\<open>while\<close> loop of \<^verbatim>\<open>_pulse\<close>, from the test of the loop
  condition up to the wait that ends the pass. \<open>Continue\<close>: the pass reached the wait
  and the loop goes on; \<open>Returned\<close>: \<^verbatim>\<open>_pulse\<close> returned; \<open>Raised\<close>: an exception left
  the loop. \<^verbatim>\<open>time_since_heartbeat_sent\<close> is only logged and left out.
\<close>

datatype pulse_result = Continue | Returned | Raised error

definition pulse_iteration :: "externals \<Rightarrow> Gateway \<Rightarrow> pulse_result \<times> Gateway" where
  "pulse_iteration ext s =
    (if request_close_event s then (Returned, s)
     else
       (case now ext s of (now0, s1) \<Rightarrow>
          (let time_since_message = fsub ext (Some now0) (last_message_received s1)
           in if flt (heartbeat_interval s1) time_since_message then
                (case close_ws DO_NOT_INVALIDATE_SESSION ''zombie connection'' (s1\<lparr>zombied := True\<rparr>) of
                   (Inl e, s2) \<Rightarrow> (Raised e, s2)
                 | (Inr u, s2) \<Rightarrow> (Returned, s2))
              else
                (case send_json (JObj [(''op'', JInt HEARTBEAT), (''d'', seq s1)]) s1 of
                   (Inl e, s2) \<Rightarrow> (Raised e, s2)
                 | (Inr u, s2) \<Rightarrow>
                     (case now ext s2 of (now1, s3) \<Rightarrow>
                        (Continue, s3\<lparr>last_heartbeat_sent := Some now1\<rparr>))))))"

text \<open>
  The scheduler lets the heartbeat task run one pass, if the task is alive. A pass is
  taken as one step: the other task does not run inside it.
\<close>

definition run_heartbeat_task :: "externals \<Rightarrow> Gateway \<Rightarrow> Gateway" where
  "run_heartbeat_task ext s =
    (if heartbeat_task s then
       (case pulse_iteration ext s of
          (Continue, s1) \<Rightarrow> s1
        | (r, s1) \<Rightarrow> s1\<lparr>heartbeat_task := False\<rparr>)
     else s)"

section \<open>Receiving\<close>

text \<open>
  What happens while the connection waits for a frame is given as a schedule: a frame
  arrives, the heartbeat task runs a pass, or the user calls \<^verbatim>\<open>close()\<close>. When the
  schedule is used up the waiting task is cancelled.
\<close>

datatype sched = Deliver websocket_message | RunPulse | UserClose

fun await_receive ::
    "externals \<Rightarrow> sched list \<Rightarrow> Gateway \<Rightarrow> websocket_message option \<times> sched list \<times> Gateway" where
  "await_receive ext [] s = (None, [], s)"
| "await_receive ext (Deliver packet # sch) s = (Some packet, sch, s)"
| "await_receive ext (RunPulse # sch) s = await_receive ext sch (run_heartbeat_task ext s)"
| "await_receive ext (UserClose # sch) s = await_receive ext sch (close s)"

definition receive_raw ::
    "externals \<Rightarrow> sched list \<Rightarrow> Gateway \<Rightarrow> (error + websocket_message) \<times> sched list \<times> Gateway" where
  "receive_raw ext sch s =
    (case ws s of
       None \<Rightarrow> (Inl AttributeError, sch, s)
     | Some w \<Rightarrow>
         (case await_receive ext sch s of
            (None, sch1, s1) \<Rightarrow> (Inl CancelledError, sch1, s1)
          | (Some packet, sch1, s1) \<Rightarrow>
              (case now ext s1 of (t, s2) \<Rightarrow>
                 (Inr packet, sch1, s2\<lparr>last_message_received := Some t\<rparr>))))"

text \<open>
  \<^verbatim>\<open>bytearray.append(x)\<close> takes one integer in \<^verbatim>\<open>range(256)\<close>; given a \<^verbatim>\<open>bytes\<close>
  object it raises \<^verbatim>\<open>TypeError\<close>.
\<close>

datatype pyarg = PyInt int | PyBytes "byte list"

fun bytearray_append :: "byte list \<Rightarrow> pyarg \<Rightarrow> error + byte list" where
  "bytearray_append buff (PyInt i) =
     (if 0 \<le> i \<and> i < 256 then Inr (buff @ [word_of_int i]) else Inl ValueError)"
| "bytearray_append buff (PyBytes data) = Inl TypeError"

definition endswith :: "byte list \<Rightarrow> byte list \<Rightarrow> bool" where
  "endswith buff suffix =
    (length suffix \<le> length buff \<and> drop (length buff - length suffix) buff = suffix)"

definition ZLIB_SUFFIX :: "byte list" where
  "ZLIB_SUFFIX = [0x00, 0x00, 0xff, 0xff]"

lemma await_receive_length:
  "await_receive ext sch s = (Some packet, sch1, s1) \<Longrightarrow> length sch1 < length sch"
  by (induction ext sch s rule: await_receive.induct) auto

lemma await_receive_length_le:
  "await_receive ext sch s = (r, sch1, s1) \<Longrightarrow> length sch1 \<le> length sch"
  by (induction ext sch s rule: await_receive.induct) auto

lemma receive_raw_length_le:
  "receive_raw ext sch s = (r, sch1, s1) \<Longrightarrow> length sch1 \<le> length sch"
  by (auto simp: receive_raw_def split: option.splits prod.splits dest: await_receive_length_le)

lemma receive_raw_length:
  "receive_raw ext sch s = (Inr packet, sch1, s1) \<Longrightarrow> length sch1 < length sch"
  by (auto simp: receive_raw_def split: option.splits prod.splits dest: await_receive_length)

text \<open>
  The loop of \<^verbatim>\<open>_receive_zlib_message\<close>, with \<^verbatim>\<open>buff\<close> and \<^verbatim>\<open>packets\<close> as arguments.
  \<^verbatim>\<open>message.data\<close> of a binary frame is a \<^verbatim>\<open>bytes\<close> object.
\<close>

function receive_zlib_loop ::
    "externals \<Rightarrow> byte list \<Rightarrow> nat \<Rightarrow> sched list \<Rightarrow> Gateway \<Rightarrow>
     (error + nat \<times> string) \<times> sched list \<times> Gateway" where
  "receive_zlib_loop ext buff packets sch s =
    (if \<not> endswith buff ZLIB_SUFFIX then
       (case receive_raw ext sch s of
          (Inl e, sch1, s1) \<Rightarrow> (Inl e, sch1, s1)
        | (Inr message, sch1, s1) \<Rightarrow>
            (case message of
               BINARY data \<Rightarrow>
                 (case bytearray_append buff (PyBytes data) of
                    Inl e \<Rightarrow> (Inl e, sch1, s1)
                  | Inr buff1 \<Rightarrow> receive_zlib_loop ext buff1 (packets + 1) sch1 s1)
             | other \<Rightarrow> (Inl (GatewayError ''Expected a binary message''), sch1, s1)))
     else
       (case zlib_decompress_decode ext (zlib s) buff of
          None \<Rightarrow> (Inl ZlibError, sch, s\<lparr>zlib := zlib s @ buff\<rparr>)
        | Some string \<Rightarrow> (Inr (packets, string), sch, s\<lparr>zlib := zlib s @ buff\<rparr>)))"
  by pat_completeness auto
termination
  by (relation "measure (\<lambda>(ext, buff, packets, sch, s). length sch)")
     (auto dest: receive_raw_length[OF sym])

declare receive_zlib_loop.simps [simp del]

definition receive_zlib_message ::
    "externals \<Rightarrow> byte list \<Rightarrow> sched list \<Rightarrow> Gateway \<Rightarrow>
     (error + nat \<times> string) \<times> sched list \<times> Gateway" where
  "receive_zlib_message ext first_packet sch s = receive_zlib_loop ext first_packet 1 sch s"

definition loads :: "externals \<Rightarrow> string \<Rightarrow> error + json" where
  "loads ext string = (case json_loads ext string of None \<Rightarrow> Inl JSONDecodeError | Some v \<Rightarrow> Inr v)"

definition receive_json_payload ::
    "externals \<Rightarrow> sched list \<Rightarrow> Gateway \<Rightarrow> (error + json) \<times> sched list \<times> Gateway" where
  "receive_json_payload ext sch s =
    (case receive_raw ext sch s of
       (Inl e, sch1, s1) \<Rightarrow> (Inl e, sch1, s1)
     | (Inr message, sch1, s1) \<Rightarrow>
         (case message of
            BINARY data \<Rightarrow>
              (case receive_zlib_message ext data sch1 s1 of
                 (Inl e, sch2, s2) \<Rightarrow> (Inl e, sch2, s2)
               | (Inr (n, string), sch2, s2) \<Rightarrow> (loads ext string, sch2, s2))
          | TEXT data \<Rightarrow> (loads ext data, sch1, s1)
          | CLOSE close_code \<Rightarrow>
              (let reason =
                     (case map_of GatewayCloseCode_members close_code of
                        Some member_name \<Rightarrow> member_name
                      | None \<Rightarrow> ''unknown close code '' @ str_int close_code);
                   can_reconnect =
                     (close_code \<in> set [DECODE_ERROR, INVALID_SEQ, UNKNOWN_ERROR,
                                         SESSION_TIMEOUT, RATE_LIMITED])
               in (Inl (GatewayServerClosedConnectionError reason close_code can_reconnect False True),
                   sch1, s1))
          | CLOSING \<Rightarrow> (Inl SocketClosed, sch1, s1)
          | CLOSED \<Rightarrow> (Inl SocketClosed, sch1, s1)
          | OTHER \<Rightarrow>
              (Inl (GatewayError ''Unexpected websocket exception from gateway''), sch1, s1)))"

lemma receive_zlib_loop_length:
  "receive_zlib_loop ext buff packets sch s = (r, sch1, s1) \<Longrightarrow> length sch1 \<le> length sch"
proof (induction ext buff packets sch s rule: receive_zlib_loop.induct)
  case (1 ext buff packets sch s)
  show ?case
  proof (cases "endswith buff ZLIB_SUFFIX")
    case True
    with "1.prems" show ?thesis
      by (auto simp: receive_zlib_loop.simps[of ext buff packets sch s] split: option.splits)
  next
    case False
    with "1.prems" show ?thesis
      by (auto simp: receive_zlib_loop.simps[of ext buff packets sch s]
               split: sum.splits prod.splits websocket_message.splits
               dest: receive_raw_length receive_raw_length_le)
  qed
qed

lemma receive_json_payload_length:
  "receive_json_payload ext sch s = (Inr message, sch1, s1) \<Longrightarrow> length sch1 < length sch"
  by (auto simp: receive_json_payload_def receive_zlib_message_def Let_def loads_def
           split: sum.splits prod.splits websocket_message.splits option.splits
           dest!: receive_raw_length receive_zlib_loop_length)

section \<open>Handshake and event loop\<close>

definition dispatch :: "json \<Rightarrow> json \<Rightarrow> Gateway \<Rightarrow> Gateway" where
  "dispatch event data s = s\<lparr>trace := trace s @ [Dispatch event data]\<rparr>"

definition handshake ::
    "externals \<Rightarrow> sched list \<Rightarrow> Gateway \<Rightarrow> (error + unit) \<times> sched list \<times> Gateway" where
  "handshake ext sch s =
    (case receive_json_payload ext sch s of
       (Inl e, sch1, s1) \<Rightarrow> (Inl e, sch1, s1)
     | (Inr message, sch1, s1) \<Rightarrow>
         (case getitem message ''op'' of
            Inl e \<Rightarrow> (Inl e, sch1, s1)
          | Inr op \<Rightarrow>
              if \<not> py_eq_int op HELLO then
                (Inl (GatewayError ''Expected HELLO opcode 10''), sch1, s1)
              else
                (case getitem message ''d'' of
                   Inl e \<Rightarrow> (Inl e, sch1, s1)
                 | Inr d \<Rightarrow>
                     (case getitem d ''heartbeat_interval'' of
                        Inl e \<Rightarrow> (Inl e, sch1, s1)
                      | Inr millis \<Rightarrow>
                          (case py_div_1000 ext millis of
                             Inl e \<Rightarrow> (Inl e, sch1, s1)
                           | Inr secs \<Rightarrow>
                               (let s2 = s1\<lparr>heartbeat_interval := Some secs\<rparr>
                                in if session_id s2 \<noteq> JNull then
                                     (case send_json
                                             (JObj [(''op'', JInt RESUME),
                                                    (''d'', JObj [(''token'', JStr (token s2)),
                                                                  (''seq'', seq s2),
                                                                  (''session_id'', session_id s2)])])
                                             s2 of
                                        (r, s3) \<Rightarrow> (r, sch1, s3))
                                   else
                                     (let d0 = [(''token'', JStr (token s2)),
                                                (''compress'', JBool False),
                                                (''large_threshold'', JInt (large_threshold s2)),
                                                (''properties'', websocket_triplet ext),
                                                (''shard'', JArr [JInt (shard_id s2), JInt (shard_count s2)])];
                                          d1 = (case intents s2 of
                                                  None \<Rightarrow> d0
                                                | Some i \<Rightarrow> d0 @ [(''intents'', JInt i)])
                                      in if activity s2 \<noteq> None \<or> idle_since s2 \<noteq> None
                                            \<or> is_afk s2 \<noteq> None \<or> status s2 \<noteq> None then
                                           (case build_presence_payload s2 UNSET UNSET UNSET UNSET of
                                              Inl e \<Rightarrow> (Inl e, sch1, s2)
                                            | Inr presence \<Rightarrow>
                                                (case send_json
                                                        (JObj [(''op'', JInt IDENTIFY),
                                                               (''d'', JObj (d1 @ [(''presence'', presence)]))])
                                                        s2 of
                                                   (r, s3) \<Rightarrow> (r, sch1, s3)))
                                         else
                                           (case send_json
                                                   (JObj [(''op'', JInt IDENTIFY), (''d'', JObj d1)])
                                                   s2 of
                                              (r, s3) \<Rightarrow> (r, sch1, s3)))))))))"

text \<open>
  The body of the loop of \<^verbatim>\<open>_poll_events\<close> after a payload was received: the
  \<^verbatim>\<open>if\<close>/\<^verbatim>\<open>elif\<close> chain on the opcode.
\<close>

definition poll_handle :: "externals \<Rightarrow> json \<Rightarrow> Gateway \<Rightarrow> (error + unit) \<times> Gateway" where
  "poll_handle ext message s =
    (case getitem message ''op'' of
       Inl e \<Rightarrow> (Inl e, s)
     | Inr op \<Rightarrow>
         (case getitem message ''d'' of
            Inl e \<Rightarrow> (Inl e, s)
          | Inr data \<Rightarrow>
              if py_eq_int op DISPATCH then
                (case getitem message ''t'' of
                   Inl e \<Rightarrow> (Inl e, s)
                 | Inr event \<Rightarrow>
                     (case getitem message ''s'' of
                        Inl e \<Rightarrow> (Inl e, s)
                      | Inr s_value \<Rightarrow>
                          (let s1 = s\<lparr>seq := s_value\<rparr>
                           in if py_eq_str event ''READY'' then
                                (case getitem data ''session_id'' of
                                   Inl e \<Rightarrow> (Inl e, s1)
                                 | Inr sid \<Rightarrow>
                                     (Inr (), dispatch event data
                                                (s1\<lparr>session_id := sid, handshake_event := True\<rparr>)))
                              else if py_eq_str event ''RESUME'' then
                                (Inr (), dispatch event data (s1\<lparr>handshake_event := True\<rparr>))
                              else (Inr (), dispatch event data s1))))
              else if py_eq_int op HEARTBEAT then
                send_json (JObj [(''op'', JInt HEARTBEAT_ACK)]) s
              else if py_eq_int op HEARTBEAT_ACK then
                (case now ext s of (t, s1) \<Rightarrow>
                   (Inr (), s1\<lparr>heartbeat_latency := fsub ext (Some t) (last_heartbeat_sent s1)\<rparr>))
              else if py_eq_int op RECONNECT then (Inl Reconnect, s)
              else if py_eq_int op INVALID_SESSION then (Inl (InvalidSession data), s)
              else (Inr (), s)))"

function poll_events ::
    "externals \<Rightarrow> sched list \<Rightarrow> Gateway \<Rightarrow> (error + unit) \<times> sched list \<times> Gateway" where
  "poll_events ext sch s =
    (if \<not> request_close_event s then
       (case receive_json_payload ext sch s of
          (Inl e, sch1, s1) \<Rightarrow> (Inl e, sch1, s1)
        | (Inr message, sch1, s1) \<Rightarrow>
            (case poll_handle ext message s1 of
               (Inl e, s2) \<Rightarrow> (Inl e, sch1, s2)
             | (Inr u, s2) \<Rightarrow> poll_events ext sch1 s2))
     else (Inr (), sch, s))"
  by pat_completeness auto
termination
  by (relation "measure (\<lambda>(ext, sch, s). length sch)")
     (auto dest: receive_json_payload_length[OF sym])

declare poll_events.simps [simp del]

section \<open>One connection attempt\<close>

text \<open>
  \<^verbatim>\<open>_run_once\<close> in four parts: the lines before the \<^verbatim>\<open>try\<close>, the \<^verbatim>\<open>try\<close> block, the
  \<^verbatim>\<open>except\<close> clauses and the \<^verbatim>\<open>finally\<close> clause.

  Before the \<^verbatim>\<open>try\<close>: if \<^verbatim>\<open>next(self._backoff)\<close> returns, the sleep for its value is
  logged, and \<open>closed_during_backoff\<close> says whether the user calls \<^verbatim>\<open>close()\<close> during that
  sleep, which ends it early. If it raises \<^verbatim>\<open>asyncio.TimeoutError\<close>, the
  \<^verbatim>\<open>except asyncio.TimeoutError: pass\<close> around the call and the sleep catches it and
  there is no sleep.
\<close>

definition run_once_backoff :: "externals \<Rightarrow> bool \<Rightarrow> Gateway \<Rightarrow> Gateway" where
  "run_once_backoff ext closed_during_backoff s =
    (case now ext (s\<lparr>request_close_event := False\<rparr>) of (t, s1) \<Rightarrow>
       (let s2 = (if flt (fsub ext (Some t) (last_run_started_at s1)) (Some 30) then
                    (case backoff_next ext (backoff s1) of
                       (True, b1) \<Rightarrow>
                         (let s1a = s1\<lparr>backoff := b1,
                                      trace := trace s1 @ [BackoffSleep (backoff s1)]\<rparr>
                          in if closed_during_backoff then close s1a else s1a)
                     | (False, b1) \<Rightarrow> s1\<lparr>backoff := b1\<rparr>)
                  else s1)
        in case now ext s2 of (t2, s3) \<Rightarrow> s3\<lparr>last_run_started_at := Some t2\<rparr>))"

text \<open>
  The \<^verbatim>\<open>try\<close> block. \<open>connect\<close> is what \<^verbatim>\<open>self._create_ws(self.url)\<close> does (the HTTP
  client is defined elsewhere): it returns a websocket, or raises
  \<^verbatim>\<open>aiohttp.ClientConnectorError\<close>, or raises another exception of aiohttp, for which
  \<^verbatim>\<open>WSServerHandshakeError\<close> stands. The result \<open>Inr False\<close> is the \<^verbatim>\<open>return False\<close>.
\<close>

datatype create_ws_result = Connected | NoConnection | UpgradeRefused

definition run_once_try ::
    "externals \<Rightarrow> create_ws_result \<Rightarrow> sched list \<Rightarrow> Gateway \<Rightarrow> (error + bool) \<times> sched list \<times> Gateway" where
  "run_once_try ext connect sch s =
    (case connect of
       NoConnection \<Rightarrow> (Inl ClientConnectorError, sch, s)
     | UpgradeRefused \<Rightarrow> (Inl WSServerHandshakeError, sch, s)
     | Connected \<Rightarrow>
         (case now ext (s\<lparr>ws := Some (WebSocket False)\<rparr>) of (t, s1) \<Rightarrow>
            (case handshake ext sch
                    (s1\<lparr>connected_at := Some t, zlib := [], handshake_event := False,
                        request_close_event := False\<rparr>) of
               (Inl e, sch1, s2) \<Rightarrow> (Inl e, sch1, s2)
             | (Inr u, sch1, s2) \<Rightarrow>
                 (case poll_events ext sch1
                         ((dispatch (JStr ''CONNECTED'') (JObj []) s2)\<lparr>heartbeat_task := True\<rparr>) of
                    (Inl e, sch2, s3) \<Rightarrow> (Inl e, sch2, s3\<lparr>heartbeat_task := False\<rparr>)
                  | (Inr u, sch2, s3) \<Rightarrow> (Inr False, sch2, s3\<lparr>heartbeat_task := False\<rparr>)))))"

text \<open>
  The \<^verbatim>\<open>except\<close> clauses, in the order of the source. A clause that ends without
  \<^verbatim>\<open>return\<close> leads to the \<^verbatim>\<open>return True\<close> after the statement.
  \<^verbatim>\<open>asyncio.CancelledError\<close> is not an \<^verbatim>\<open>Exception\<close> and passes through.
\<close>

fun run_once_except :: "error + bool \<Rightarrow> Gateway \<Rightarrow> (error + bool) \<times> Gateway" where
  "run_once_except (Inr b) s = (Inr b, s)"
| "run_once_except (Inl ClientConnectorError) s = (Inr True, s)"
| "run_once_except (Inl (InvalidSession can_resume)) s =
     (if py_truthy can_resume then
        (case close_ws DO_NOT_INVALIDATE_SESSION ''invalid session (resume)'' s of
           (Inl e, s1) \<Rightarrow> (Inl e, s1)
         | (Inr u, s1) \<Rightarrow> (Inr True, s1))
      else
        (case close_ws RFC_6455_NORMAL_CLOSURE ''invalid session (no resume)'' s of
           (Inl e, s1) \<Rightarrow> (Inl e, s1)
         | (Inr u, s1) \<Rightarrow> (Inr True, s1\<lparr>seq := JNull, session_id := JNull\<rparr>)))"
| "run_once_except (Inl Reconnect) s =
     (case close_ws DO_NOT_INVALIDATE_SESSION ''reconnecting'' (s\<lparr>backoff := 0\<rparr>) of
        (Inl e, s1) \<Rightarrow> (Inl e, s1)
      | (Inr u, s1) \<Rightarrow> (Inr True, s1))"
| "run_once_except (Inl SocketClosed) s =
     (if \<not> zombied s \<and> \<not> request_close_event s
      then (Inr (\<not> request_close_event s), s)
      else (Inr (\<not> request_close_event s), s\<lparr>backoff := 0\<rparr>))"
| "run_once_except (Inl CancelledError) s = (Inl CancelledError, s)"
| "run_once_except (Inl ex) s =
     (case close_ws RFC_6455_UNEXPECTED_CONDITION ''unexpected error occurred'' s of
        (Inl e, s1) \<Rightarrow> (Inl e, s1)
      | (Inr u, s1) \<Rightarrow> (Inl ex, s1))"

definition run_once_finally :: "Gateway \<Rightarrow> Gateway" where
  "run_once_finally s =
    (if \<not> isnan (connected_at s)
     then (dispatch (JStr ''DISCONNECTED'') (JObj []) s)\<lparr>connected_at := None\<rparr>
     else s\<lparr>connected_at := None\<rparr>)"

definition run_once ::
    "externals \<Rightarrow> create_ws_result \<Rightarrow> bool \<Rightarrow> sched list \<Rightarrow> Gateway \<Rightarrow>
     (error + bool) \<times> sched list \<times> Gateway" where
  "run_once ext connect closed_during_backoff sch s =
    (case run_once_try ext connect sch (run_once_backoff ext closed_during_backoff s) of
       (r, sch1, s1) \<Rightarrow>
         (case run_once_except r s1 of
            (r2, s2) \<Rightarrow> (r2, sch1, run_once_finally s2)))"

text \<open>
  \<^verbatim>\<open>_run\<close>: attempts until one says not to reconnect or a close was requested; it always
  ends by raising. Each attempt takes its \<open>connect\<close> and \<open>closed_during_backoff\<close> from
  the list; when the list is used up and the loop would go on, the task is cancelled.
\<close>

fun run ::
    "externals \<Rightarrow> (create_ws_result \<times> bool) list \<Rightarrow> sched list \<Rightarrow> Gateway \<Rightarrow> error \<times> sched list \<times> Gateway" where
  "run ext [] sch s =
     (if \<not> request_close_event s
      then (CancelledError, sch, s\<lparr>handshake_event := True\<rparr>)
      else (GatewayClientClosedError, sch, s\<lparr>handshake_event := True\<rparr>))"
| "run ext ((connect, closed_during_backoff) # attempts) sch s =
     (if \<not> request_close_event s then
        (case run_once ext connect closed_during_backoff sch s of
           (Inl e, sch1, s1) \<Rightarrow> (e, sch1, s1\<lparr>handshake_event := True\<rparr>)
         | (Inr again, sch1, s1) \<Rightarrow>
             if again then run ext attempts sch1 s1
             else (GatewayClientClosedError, sch1, s1\<lparr>handshake_event := True\<rparr>))
      else (GatewayClientClosedError, sch, s\<lparr>handshake_event := True\<rparr>))"

section \<open>The supervisor of \<^verbatim>\<open>shards.py\<close>\<close>

text \<open>
  \<^verbatim>\<open>ShardClientImpl._keep_alive\<close>. Its connection object (\<^verbatim>\<open>hikari.net.shards.Shard\<close>)
  is defined elsewhere, so what \<^verbatim>\<open>_spin_up\<close> and the connect task do in an
  attempt is given: the exception \<^verbatim>\<open>_spin_up\<close> raises if any, the value of
  \<^verbatim>\<open>reconnect_count\<close> after it, and the exception the connect task ends with if any.
  The supervisor has its own \<^verbatim>\<open>ExponentialBackOff\<close> and reads the same clock. The close
  codes of \<^verbatim>\<open>hikari.net.codes\<close> are taken to be those of \<^verbatim>\<open>gateway.py\<close>.
\<close>

record attempt =
  spin_up :: "error option"
  reconnect_count :: nat
  connect_task :: "error option"

datatype supervisor_action =
    DispatchEvent string
  | SleepBackoff nat
  | Sleep int

record ShardClientImpl =
  connection_seq :: json
  connection_session_id :: json
  has_dispatcher :: bool
  clock_ticks :: nat
  journal :: "supervisor_action list"

text \<open>The local variables of \<^verbatim>\<open>_keep_alive\<close>.\<close>

record keep_alive_locals =
  back_off :: nat
  last_start :: real
  do_not_back_off :: bool

datatype loop_result = Again | Return | Raise error

text \<open>
  The statements of the \<^verbatim>\<open>try\<close> block before \<^verbatim>\<open>_spin_up\<close>. The clock is read for the
  test only if \<^verbatim>\<open>do_not_back_off\<close> is false. If \<^verbatim>\<open>next(back_off)\<close> raises, the
  exception leaves the block at once (\<open>Some\<close>).
\<close>

definition keep_alive_backoff ::
    "externals \<Rightarrow> keep_alive_locals \<Rightarrow> ShardClientImpl \<Rightarrow>
     error option \<times> keep_alive_locals \<times> ShardClientImpl" where
  "keep_alive_backoff ext l c =
    (case (if \<not> do_not_back_off l then
             (let c0 = c\<lparr>clock_ticks := Suc (clock_ticks c)\<rparr>
              in if float_sub ext (perf_counter ext (clock_ticks c)) (last_start l) < 30 then
                   (case backoff_next ext (back_off l) of
                      (True, b1) \<Rightarrow>
                        (None, l\<lparr>back_off := b1\<rparr>,
                         c0\<lparr>journal := journal c0 @ [SleepBackoff (back_off l)]\<rparr>)
                    | (False, b1) \<Rightarrow> (Some TimeoutError, l\<lparr>back_off := b1\<rparr>, c0))
                 else (None, l\<lparr>back_off := 0\<rparr>, c0))
           else (None, l\<lparr>back_off := 0\<rparr>, c)) of
       (Some e, l1, c1) \<Rightarrow> (Some e, l1, c1)
     | (None, l1, c1) \<Rightarrow>
         (None, l1\<lparr>last_start := perf_counter ext (clock_ticks c1), do_not_back_off := False\<rparr>,
          c1\<lparr>clock_ticks := Suc (clock_ticks c1)\<rparr>))"

text \<open>The rest of the \<^verbatim>\<open>try\<close> block: the exception it ends with, if any.\<close>

definition attempt_exception :: "attempt \<Rightarrow> error option" where
  "attempt_exception a = (case spin_up a of Some e \<Rightarrow> Some e | None \<Rightarrow> connect_task a)"

definition keep_alive_connect :: "attempt \<Rightarrow> ShardClientImpl \<Rightarrow> error option \<times> ShardClientImpl" where
  "keep_alive_connect a c =
    (attempt_exception a,
     (if spin_up a = None \<and> has_dispatcher c \<and> reconnect_count a = 0
      then c\<lparr>journal := journal c @ [DispatchEvent ''StartedEvent'']\<rparr> else c))"

fun keep_alive_except ::
    "error option \<Rightarrow> keep_alive_locals \<Rightarrow> ShardClientImpl \<Rightarrow> loop_result \<times> keep_alive_locals \<times> ShardClientImpl" where
  "keep_alive_except None l c = (Again, l, c)"
| "keep_alive_except (Some ClientConnectorError) l c = (Again, l, c)"
| "keep_alive_except (Some GatewayZombiedError) l c = (Again, l, c)"
| "keep_alive_except (Some (GatewayInvalidSessionError can_resume)) l c =
     (Again, l\<lparr>do_not_back_off := True\<rparr>,
      (if can_resume then c else c\<lparr>connection_seq := JNull, connection_session_id := JNull\<rparr>)
        \<lparr>journal := journal c @ [Sleep 5]\<rparr>)"
| "keep_alive_except (Some GatewayMustReconnectError) l c =
     (Again, l\<lparr>do_not_back_off := True\<rparr>, c\<lparr>journal := journal c @ [Sleep 5]\<rparr>)"
| "keep_alive_except (Some (GatewayServerClosedConnectionError reason close_code cr b1 b2)) l c =
     (if close_code \<in> set [NOT_AUTHENTICATED, AUTHENTICATION_FAILED, ALREADY_AUTHENTICATED,
                            SHARDING_REQUIRED, INVALID_VERSION, INVALID_INTENT, DISALLOWED_INTENT]
      then (Raise (GatewayServerClosedConnectionError reason close_code cr b1 b2), l, c)
      else (Again, l, c))"
| "keep_alive_except (Some GatewayClientDisconnectedError) l c = (Again, l, c)"
| "keep_alive_except (Some GatewayClientClosedError) l c = (Return, l, c)"
| "keep_alive_except (Some ex) l c = (Raise ex, l, c)"

definition keep_alive_iteration ::
    "externals \<Rightarrow> attempt \<Rightarrow> keep_alive_locals \<Rightarrow> ShardClientImpl \<Rightarrow>
     loop_result \<times> keep_alive_locals \<times> ShardClientImpl" where
  "keep_alive_iteration ext a l c =
    (case keep_alive_backoff ext l c of
       (Some e, l1, c1) \<Rightarrow> keep_alive_except (Some e) l1 c1
     | (None, l1, c1) \<Rightarrow>
         (case keep_alive_connect a c1 of
            (r, c2) \<Rightarrow> keep_alive_except r l1 c2))"

fun keep_alive_loop ::
    "externals \<Rightarrow> attempt list \<Rightarrow> keep_alive_locals \<Rightarrow> ShardClientImpl \<Rightarrow>
     error option \<times> ShardClientImpl" where
  "keep_alive_loop ext [] l c = (Some CancelledError, c)"
| "keep_alive_loop ext (a # attempts) l c =
     (case keep_alive_iteration ext a l c of
        (Again, l1, c1) \<Rightarrow> keep_alive_loop ext attempts l1 c1
      | (Return, l1, c1) \<Rightarrow> (None, c1)
      | (Raise e, l1, c1) \<Rightarrow> (Some e, c1))"

definition keep_alive ::
    "externals \<Rightarrow> attempt list \<Rightarrow> ShardClientImpl \<Rightarrow> error option \<times> ShardClientImpl" where
  "keep_alive ext attempts c =
    (let l = \<lparr>back_off = 0, last_start = perf_counter ext (clock_ticks c), do_not_back_off = True\<rparr>;
         c1 = c\<lparr>clock_ticks := Suc (clock_ticks c)\<rparr>;
         c2 = (if has_dispatcher c1 then c1\<lparr>journal := journal c1 @ [DispatchEvent ''StartingEvent'']\<rparr> else c1)
     in keep_alive_loop ext attempts l c2)"

section \<open>What receiving leaves alone\<close>

text \<open>
  Two relations between the gateway before and after a step, used to carry facts over
  the receive path: the connection is the same (\<open>connected_at\<close>, and whether there is a
  websocket), the session identity is the same (session id, sequence number, token).
\<close>

definition same_connection :: "Gateway \<Rightarrow> Gateway \<Rightarrow> bool" where
  "same_connection s s1 = (connected_at s1 = connected_at s \<and> (ws s1 = None) = (ws s = None))"

definition same_session :: "Gateway \<Rightarrow> Gateway \<Rightarrow> bool" where
  "same_session s s1 = (session_id s1 = session_id s \<and> seq s1 = seq s \<and> token s1 = token s)"

section \<open>Example inputs\<close>

text \<open>
  Three frames as text, and a platform that decodes these texts, reads the clock as
  0, 1, 2, ..., computes on the small numbers used here without rounding, has a
  back-off that always returns a delay, and inflates nothing.
\<close>

definition hello_text :: string where
  "hello_text = ''{\"op\": 10, \"d\": {\"heartbeat_interval\": 45000}}''"

definition invalid_session_text :: string where
  "invalid_session_text = ''{\"op\": 9, \"d\": false}''"

definition reconnect_text :: string where
  "reconnect_text = ''{\"op\": 7, \"d\": null}''"

definition example_loads :: "string \<Rightarrow> json option" where
  "example_loads string =
    (if string = hello_text then
       Some (JObj [(''op'', JInt 10), (''d'', JObj [(''heartbeat_interval'', JInt 45000)])])
     else if string = invalid_session_text then
       Some (JObj [(''op'', JInt 9), (''d'', JBool False)])
     else if string = reconnect_text then
       Some (JObj [(''op'', JInt 7), (''d'', JNull)])
     else None)"

definition example_externals :: externals where
  "example_externals =
    \<lparr> perf_counter = (\<lambda>k. of_nat k),
      float_sub = (\<lambda>x y. x - y),
      float_div = (\<lambda>x y. x / y),
      int_to_float = (\<lambda>i. Some (of_int i)),
      backoff_next = (\<lambda>b. (True, Suc b)),
      json_loads = example_loads,
      zlib_decompress_decode = (\<lambda>fed buff. None),
      websocket_triplet = JObj [] \<rparr>"

definition example_gateway :: Gateway where
  "example_gateway = init None None None None None 250 0 1 ''token''"

definition example_connected :: Gateway where
  "example_connected = example_gateway\<lparr>ws := Some (WebSocket False)\<rparr>"

definition example_resumable :: Gateway where
  "example_resumable = example_connected\<lparr>session_id := JStr ''abc'', seq := JInt 7\<rparr>"


definition frozen_clock_externals :: externals where
  "frozen_clock_externals = example_externals\<lparr>perf_counter := (\<lambda>k. 0)\<rparr>"

definition example_shard_client :: ShardClientImpl where
  "example_shard_client =
    \<lparr> connection_seq = JInt 7, connection_session_id = JStr ''abc'', has_dispatcher = False,
      clock_ticks = 0, journal = [] \<rparr>"

section \<open>Lemmas on the receive path\<close>

lemma send_json_cases:
  "send_json payload s = (r, s1) \<Longrightarrow>
     (r = Inr () \<and> s1 = s\<lparr>trace := trace s @ [SendStr payload]\<rparr>)
     \<or> ((\<exists>e. r = Inl e) \<and> s1 = s)"
  by (cases "ws s") (auto simp: send_json_def split: if_splits)

lemma example_loads_simps:
  "example_loads hello_text = Some (JObj [(''op'', JInt 10), (''d'', JObj [(''heartbeat_interval'', JInt 45000)])])"
  "example_loads invalid_session_text = Some (JObj [(''op'', JInt 9), (''d'', JBool False)])"
  "example_loads reconnect_text = Some (JObj [(''op'', JInt 7), (''d'', JNull)])"
  by (simp_all add: example_loads_def hello_text_def invalid_session_text_def reconnect_text_def)

lemma same_connection_refl [simp]: "same_connection s s"
  by (simp add: same_connection_def)

lemma same_connection_trans: "same_connection s s1 \<Longrightarrow> same_connection s1 s2 \<Longrightarrow> same_connection s s2"
  by (simp add: same_connection_def)

lemma same_session_refl [simp]: "same_session s s"
  by (simp add: same_session_def)

lemma same_session_trans: "same_session s s1 \<Longrightarrow> same_session s1 s2 \<Longrightarrow> same_session s s2"
  by (simp add: same_session_def)

lemma now_same: "now ext s = (t, s1) \<Longrightarrow> same_connection s s1 \<and> same_session s s1"
  by (auto simp: now_def same_connection_def same_session_def)

lemma send_json_same: "send_json payload s = (r, s1) \<Longrightarrow> same_connection s s1 \<and> same_session s s1"
  by (auto simp: send_json_def same_connection_def same_session_def split: option.splits if_splits)

lemma close_ws_same: "close_ws code message s = (r, s1) \<Longrightarrow> same_connection s s1 \<and> same_session s s1"
  by (auto simp: close_ws_def same_connection_def same_session_def split: option.splits)

lemma close_same: "same_connection s (close s) \<and> same_session s (close s)"
  by (auto simp: close_def close_ws_def same_connection_def same_session_def Let_def split: option.splits)

lemma pulse_iteration_same:
  "pulse_iteration ext s = (r, s1) \<Longrightarrow> same_connection s s1 \<and> same_session s s1"
  by (auto simp: pulse_iteration_def now_def send_json_def close_ws_def same_connection_def
        same_session_def Let_def split: option.splits if_splits prod.splits sum.splits)

lemma run_heartbeat_task_same:
  "same_connection s (run_heartbeat_task ext s) \<and> same_session s (run_heartbeat_task ext s)"
proof (cases "heartbeat_task s")
  case False
  then show ?thesis by (simp add: run_heartbeat_task_def)
next
  case True
  obtain r s1 where p: "pulse_iteration ext s = (r, s1)" by (cases "pulse_iteration ext s")
  from pulse_iteration_same[OF p] True p show ?thesis
    by (cases r) (auto simp: run_heartbeat_task_def same_connection_def same_session_def)
qed

lemma await_receive_same:
  "await_receive ext sch s = (r, sch1, s1) \<Longrightarrow> same_connection s s1 \<and> same_session s s1"
proof (induction ext sch s rule: await_receive.induct)
  case (3 ext sch s)
  then show ?case
    using run_heartbeat_task_same[of s ext]
    by (auto intro: same_connection_trans same_session_trans)
next
  case (4 ext sch s)
  then show ?case
    using close_same[of s]
    by (auto intro: same_connection_trans same_session_trans)
qed auto

lemma receive_raw_same:
  "receive_raw ext sch s = (r, sch1, s1) \<Longrightarrow> same_connection s s1 \<and> same_session s s1"
  by (auto simp: receive_raw_def now_def same_connection_def same_session_def
           split: option.splits prod.splits dest!: await_receive_same)

lemma receive_zlib_loop_same:
  "receive_zlib_loop ext buff packets sch s = (r, sch1, s1) \<Longrightarrow>
     same_connection s s1 \<and> same_session s s1"
proof (induction ext buff packets sch s rule: receive_zlib_loop.induct)
  case (1 ext buff packets sch s)
  show ?case
  proof (cases "endswith buff ZLIB_SUFFIX")
    case True
    with "1.prems" show ?thesis
      by (auto simp: receive_zlib_loop.simps[of ext buff packets sch s] same_connection_def
            same_session_def split: option.splits)
  next
    case False
    with "1.prems" show ?thesis
      by (auto simp: receive_zlib_loop.simps[of ext buff packets sch s]
               split: sum.splits prod.splits websocket_message.splits
               dest: receive_raw_same)
  qed
qed

lemma receive_json_payload_same:
  "receive_json_payload ext sch s = (r, sch1, s1) \<Longrightarrow> same_connection s s1 \<and> same_session s s1"
  by (auto simp: receive_json_payload_def receive_zlib_message_def Let_def
           split: sum.splits prod.splits websocket_message.splits
           dest!: receive_raw_same receive_zlib_loop_same
           intro: same_connection_trans same_session_trans)

lemma handshake_same_connection:
  "handshake ext sch s = (r, sch1, s1) \<Longrightarrow> same_connection s s1"
  by (auto simp: handshake_def Let_def same_connection_def
           split: sum.splits prod.splits if_splits option.splits
           dest!: receive_json_payload_same send_json_same)

lemma poll_handle_same_connection:
  "poll_handle ext message s = (r, s1) \<Longrightarrow> same_connection s s1"
  by (auto simp: poll_handle_def Let_def same_connection_def dispatch_def now_def
           split: sum.splits prod.splits if_splits
           dest!: send_json_same)

lemma poll_events_same_connection:
  "poll_events ext sch s = (r, sch1, s1) \<Longrightarrow> same_connection s s1"
proof (induction ext sch s arbitrary: r sch1 s1 rule: poll_events.induct)
  case (1 ext sch s)
  show ?case
  proof (cases "request_close_event s")
    case True
    with "1.prems" show ?thesis by (simp add: poll_events.simps[of ext sch s])
  next
    case False
    obtain r0 sch0 s0 where rj: "receive_json_payload ext sch s = (r0, sch0, s0)"
      by (cases "receive_json_payload ext sch s") auto
    have c0: "same_connection s s0" using receive_json_payload_same[OF rj] by simp
    show ?thesis
    proof (cases r0)
      case (Inl e)
      with "1.prems" False rj c0 show ?thesis by (simp add: poll_events.simps[of ext sch s])
    next
      case (Inr message)
      obtain r2 s2 where ph: "poll_handle ext message s0 = (r2, s2)"
        by (cases "poll_handle ext message s0") auto
      have c2: "same_connection s s2"
        using c0 poll_handle_same_connection[OF ph] by (rule same_connection_trans)
      show ?thesis
      proof (cases r2)
        case (Inl e)
        with "1.prems" False rj Inr ph c2 show ?thesis by (simp add: poll_events.simps[of ext sch s])
      next
        case (Inr u)
        with "1.prems" False rj \<open>r0 = Inr message\<close> ph
        have "poll_events ext sch0 s2 = (r, sch1, s1)" by (simp add: poll_events.simps[of ext sch s])
        from "1.IH"[OF False rj[symmetric] \<open>r0 = Inr message\<close> refl ph[symmetric] Inr this]
        have "same_connection s2 s1" .
        with c2 show ?thesis by (rule same_connection_trans)
      qed
    qed
  qed
qed

section \<open>Close frames\<close>

text \<open>
  C2, as the code has it: when a CLOSE frame arrives, the error raised carries the
  close code, and its can-reconnect flag is true if and only if the code is one of
  4000, 4002, 4007, 4008, 4009. For every other code, 1000 and 1001 included, the flag
  is false.
\<close>

theorem close_frame_can_reconnect:
  assumes "receive_raw ext sch s = (Inr (CLOSE close_code), sch1, s1)"
  shows "\<exists>reason. receive_json_payload ext sch s =
           (Inl (GatewayServerClosedConnectionError reason close_code
                   (close_code \<in> {4000, 4002, 4007, 4008, 4009}) False True), sch1, s1)"
  using assms
  by (auto simp: receive_json_payload_def Let_def DECODE_ERROR_def INVALID_SEQ_def
        UNKNOWN_ERROR_def SESSION_TIMEOUT_def RATE_LIMITED_def)

theorem close_frame_can_reconnect_witness:
  "\<exists>reason. receive_json_payload example_externals [Deliver (CLOSE 4000)] example_connected =
           (Inl (GatewayServerClosedConnectionError reason 4000 True False True), [],
            example_connected\<lparr>ticks := 1, last_message_received := Some 0\<rparr>)"
proof -
  have h: "receive_raw example_externals [Deliver (CLOSE 4000)] example_connected =
      (Inr (CLOSE 4000), [], example_connected\<lparr>ticks := 1, last_message_received := Some 0\<rparr>)"
    by (simp add: receive_raw_def example_connected_def example_gateway_def init_def now_def
          example_externals_def)
  show ?thesis using close_frame_can_reconnect[OF h] by simp
qed

text \<open>
  C2 as the specification states it fails at the close code 1000, which it lists as
  reconnectable: the flag of the error raised is false.
\<close>

theorem close_frame_1000_not_reconnectable:
  "fst (receive_json_payload example_externals [Deliver (CLOSE 1000)] example_connected) =
     Inl (GatewayServerClosedConnectionError ''RFC_6455_NORMAL_CLOSURE'' 1000 False False True)"
  by (simp add: receive_json_payload_def receive_raw_def example_connected_def example_gateway_def
        init_def now_def example_externals_def GatewayCloseCode_members_def close_code_defs Let_def)

section \<open>The heartbeat\<close>

text \<open>
  C3: a pass of the heartbeat loop that finds no close request reads the clock and
  computes the time since the last message as the float difference of the two. If
  the heartbeat interval and the time of the last message are both known (not NaN) and
  the interval is strictly less than that difference, it sets the zombie flag, closes
  the websocket with code 3000 and message "zombie connection" and the loop returns,
  with nothing sent. Otherwise, on an open websocket, it sends opcode 1 with the stored
  sequence number, records the next clock reading as the time of the last heartbeat
  and goes on; on a closed websocket the send raises.
\<close>

theorem pulse_iteration_zombie_or_heartbeat:
  assumes "\<not> request_close_event s" and "ws s = Some w"
  shows "pulse_iteration ext s =
    (if (\<exists>interval received. heartbeat_interval s = Some interval
            \<and> last_message_received s = Some received
            \<and> interval < float_sub ext (perf_counter ext (ticks s)) received)
     then (Returned, s\<lparr>ticks := Suc (ticks s), zombied := True, ws := Some (WebSocket True),
                       trace := trace s @ [WsClose 3000 ''zombie connection'']\<rparr>)
     else if ws_closed w then (Raised ConnectionResetError, s\<lparr>ticks := Suc (ticks s)\<rparr>)
     else (Continue, s\<lparr>ticks := Suc (Suc (ticks s)),
                       trace := trace s @ [SendStr (JObj [(''op'', JInt 1), (''d'', seq s)])],
                       last_heartbeat_sent := Some (perf_counter ext (Suc (ticks s)))\<rparr>))"
  using assms
  by (auto simp: pulse_iteration_def now_def flt_def fsub_def close_ws_def send_json_def
        DO_NOT_INVALIDATE_SESSION_def HEARTBEAT_def split: option.splits)

theorem pulse_iteration_zombie_or_heartbeat_witness:
  "pulse_iteration example_externals
      (example_connected\<lparr>heartbeat_interval := Some 1, last_message_received := Some (- 5)\<rparr>) =
     (Returned, example_connected\<lparr>heartbeat_interval := Some 1, last_message_received := Some (- 5),
                  ticks := 1, zombied := True, ws := Some (WebSocket True),
                  trace := [WsClose 3000 ''zombie connection'']\<rparr>)
   \<and> pulse_iteration example_externals
      (example_connected\<lparr>heartbeat_interval := Some 1, last_message_received := Some 0\<rparr>) =
     (Continue, example_connected\<lparr>heartbeat_interval := Some 1, last_message_received := Some 0,
                  ticks := 2, trace := [SendStr (JObj [(''op'', JInt 1), (''d'', JNull)])],
                  last_heartbeat_sent := Some 1\<rparr>)"
proof -
  have open_ws: "ws (example_connected\<lparr>heartbeat_interval := Some 1, last_message_received := Some x\<rparr>)
      = Some (WebSocket False)" for x
    by (simp add: example_connected_def)
  have running: "\<not> request_close_event
      (example_connected\<lparr>heartbeat_interval := Some 1, last_message_received := Some x\<rparr>)" for x
    by (simp add: example_connected_def example_gateway_def init_def)
  show ?thesis
    using pulse_iteration_zombie_or_heartbeat[OF running open_ws, of example_externals "- 5"]
          pulse_iteration_zombie_or_heartbeat[OF running open_ws, of example_externals 0]
    by (simp add: example_connected_def example_gateway_def init_def example_externals_def)
qed

text \<open>
  The comparison is made on the float difference, not on the exact one: where the
  float difference of the clock reading and the time of the last message is 97, an
  interval of 97 is not exceeded and the heartbeat is sent, whatever the exact
  difference is.
\<close>

lemma pulse_iteration_compares_rounded_difference:
  assumes "\<not> request_close_event s" and "ws s = Some (WebSocket False)"
    and "heartbeat_interval s = Some 97" and "last_message_received s = Some received"
    and "float_sub ext (perf_counter ext (ticks s)) received = 97"
  shows "fst (pulse_iteration ext s) = Continue"
  using assms
  by (simp add: pulse_iteration_def now_def flt_def fsub_def send_json_def)

section \<open>Dispatch frames\<close>

text \<open>
  C6 at the frame \<^verbatim>\<open>{"op": 0, "t": "RESUMED", "s": 5, "d": {}}\<close>: the sequence number
  is stored and the event is forwarded, but the handshake event stays unset. The
  \<^verbatim>\<open>elif\<close> of \<^verbatim>\<open>_poll_events\<close> compares the event name with "RESUME".
\<close>

theorem resumed_leaves_handshake_event_unset:
  "poll_handle ext
       (JObj [(''op'', JInt 0), (''t'', JStr ''RESUMED''), (''s'', JInt 5), (''d'', JObj [])])
       (s\<lparr>handshake_event := False\<rparr>) =
     (Inr (), s\<lparr>handshake_event := False, seq := JInt 5,
                trace := trace s @ [Dispatch (JStr ''RESUMED'') (JObj [])]\<rparr>)"
  by (simp add: poll_handle_def DISPATCH_def dispatch_def Let_def)

section \<open>Compressed frames\<close>

text \<open>
  C7 at a message of six bytes: received as one frame it is inflated; received as two
  frames, the second frame makes \<^verbatim>\<open>buff.append(message.data)\<close> raise \<^verbatim>\<open>TypeError\<close>.
\<close>

theorem zlib_second_frame_raises:
  "fst (receive_zlib_message ext [0x78, 0x9c] [Deliver (BINARY [0x00, 0x00, 0xff, 0xff])]
          (s\<lparr>ws := Some (WebSocket False)\<rparr>)) = Inl TypeError
   \<and> fst (receive_zlib_message ext [0x78, 0x9c, 0x00, 0x00, 0xff, 0xff] []
          (s\<lparr>ws := Some (WebSocket False)\<rparr>)) =
       (case zlib_decompress_decode ext (zlib s) [0x78, 0x9c, 0x00, 0x00, 0xff, 0xff] of
          None \<Rightarrow> Inl ZlibError | Some string \<Rightarrow> Inr (1, string))"
  by (simp add: receive_zlib_message_def receive_zlib_loop.simps endswith_def ZLIB_SUFFIX_def
        receive_raw_def now_def split: option.splits)

text \<open>
  More generally, a first frame that does not end with the suffix never leads to a
  decoded message, whatever arrives after it.
\<close>

lemma receive_zlib_message_incomplete_first_frame:
  assumes "\<not> endswith first_packet ZLIB_SUFFIX"
  shows "\<exists>e. fst (receive_zlib_message ext first_packet sch s) = Inl e"
  unfolding receive_zlib_message_def
  using assms
  by (subst receive_zlib_loop.simps)
     (auto split: prod.splits sum.splits websocket_message.splits)

section \<open>Presence\<close>

text \<open>
  C8 at a gateway idle since the time 1.5 seconds after the epoch: the payload has the
  four fields since, afk, status and game, and \<^verbatim>\<open>since\<close> is 1.5, the time in seconds.
  The builder of \<^verbatim>\<open>shards.py\<close> multiplies the same timestamp by 1000.
\<close>

theorem presence_since_in_seconds:
  "build_presence_payload (example_gateway\<lparr>idle_since := Some (Datetime (3 / 2))\<rparr>)
       UNSET UNSET UNSET UNSET =
     Inr (JObj [(''since'', JFloat (3 / 2)), (''afk'', JBool False),
                (''status'', JStr ''online''), (''game'', JNull)])
   \<and> create_presence_pl serialize ONLINE None (Some (Datetime (3 / 2))) False =
     JObj [(''status'', JStr ''online''), (''idle_since'', JFloat 1500),
           (''game'', JNull), (''afk'', JBool False)]"
  by (simp add: build_presence_payload_def example_gateway_def init_def stored_status_def
        stored_activity_def create_presence_pl_def)

text \<open>
  C10: \<^verbatim>\<open>update_presence\<close> stores nothing unless the frame was sent. If building
  the payload or sending raises, the gateway is left as it was. If it returns, one
  frame with opcode 3 was sent, every argument that was given is stored and every
  argument left unset leaves its field as it was.
\<close>

theorem update_presence_atomic:
  "(\<forall>e s1. update_presence idle_since0 is_afk0 activity0 status0 s = (Inl e, s1) \<longrightarrow> s1 = s)
   \<and> (\<forall>s1. update_presence idle_since0 is_afk0 activity0 status0 s = (Inr (), s1) \<longrightarrow>
         idle_since s1 = (case idle_since0 of UNSET \<Rightarrow> idle_since s | Given v \<Rightarrow> v)
       \<and> is_afk s1 = (case is_afk0 of UNSET \<Rightarrow> is_afk s | Given v \<Rightarrow> Some v)
       \<and> activity s1 = (case activity0 of UNSET \<Rightarrow> activity s | Given v \<Rightarrow> v)
       \<and> status s1 = (case status0 of UNSET \<Rightarrow> status s | Given v \<Rightarrow> Some v)
       \<and> (\<exists>payload. trace s1 = trace s @ [SendStr (JObj [(''op'', JInt 3), (''d'', payload)])]))"
proof (intro conjI allI impI)
  fix e s1
  assume "update_presence idle_since0 is_afk0 activity0 status0 s = (Inl e, s1)"
  then show "s1 = s"
    by (auto simp: update_presence_def split: sum.splits prod.splits dest: send_json_cases)
next
  fix s1
  assume "update_presence idle_since0 is_afk0 activity0 status0 s = (Inr (), s1)"
  then obtain payload where
    s1: "s1 = s\<lparr>trace := trace s @ [SendStr (JObj [(''op'', JInt PRESENCE_UPDATE), (''d'', payload)])],
              idle_since := or_stored idle_since0 (idle_since s),
              is_afk := or_stored (as_optional is_afk0) (is_afk s),
              activity := or_stored activity0 (activity s),
              status := or_stored (as_optional status0) (status s)\<rparr>"
    by (auto simp: update_presence_def split: sum.splits prod.splits dest!: send_json_cases)
  show "idle_since s1 = (case idle_since0 of UNSET \<Rightarrow> idle_since s | Given v \<Rightarrow> v)"
    by (cases idle_since0) (simp_all add: s1)
  show "is_afk s1 = (case is_afk0 of UNSET \<Rightarrow> is_afk s | Given v \<Rightarrow> Some v)"
    by (cases is_afk0) (simp_all add: s1)
  show "activity s1 = (case activity0 of UNSET \<Rightarrow> activity s | Given v \<Rightarrow> v)"
    by (cases activity0) (simp_all add: s1)
  show "status s1 = (case status0 of UNSET \<Rightarrow> status s | Given v \<Rightarrow> Some v)"
    by (cases status0) (simp_all add: s1)
  show "\<exists>payload. trace s1 = trace s @ [SendStr (JObj [(''op'', JInt 3), (''d'', payload)])]"
    by (simp add: s1 PRESENCE_UPDATE_def)
qed

text \<open>
  The positional call in \<^verbatim>\<open>update_presence\<close> at work: asked to clear the activity of a
  gateway whose stored status is "dnd", it sends the status "online" and the stored
  activity; asked to set a status, it raises.
\<close>

lemma update_presence_swaps_arguments:
  "update_presence UNSET UNSET (Given None) UNSET
      (example_connected\<lparr>status := Some DND,
                          activity := Some \<lparr>name = ''chess'', url = None, type = 0\<rparr>\<rparr>) =
    (Inr (),
     example_connected\<lparr>status := Some DND, activity := None,
        trace := [SendStr (JObj [(''op'', JInt 3),
                    (''d'', JObj [(''since'', JNull), (''afk'', JBool False),
                                  (''status'', JStr ''online''),
                                  (''game'', JObj [(''name'', JStr ''chess''), (''url'', JNull),
                                                   (''type'', JInt 0)])])])]\<rparr>)
   \<and> update_presence UNSET UNSET UNSET (Given IDLE) example_connected
       = (Inl AttributeError, example_connected)"
  by (simp add: update_presence_def build_presence_payload_def example_connected_def
        example_gateway_def init_def stored_status_def stored_activity_def send_json_def
        PRESENCE_UPDATE_def)

lemma update_presence_example_returns:
  "\<exists>s1. update_presence UNSET (Given True) UNSET UNSET example_connected = (Inr (), s1)"
  by (simp add: update_presence_def build_presence_payload_def example_connected_def
        example_gateway_def init_def stored_status_def stored_activity_def send_json_def)

lemma update_presence_example_raises:
  "\<exists>e s1. update_presence UNSET UNSET UNSET (Given IDLE) example_connected = (Inl e, s1)"
  by (simp add: update_presence_def build_presence_payload_def example_connected_def
        example_gateway_def init_def stored_status_def stored_activity_def send_json_def)

theorem update_presence_atomic_witness:
  "(\<exists>s1. update_presence UNSET (Given True) UNSET UNSET example_connected = (Inr (), s1)
        \<and> idle_since s1 = None \<and> is_afk s1 = Some True \<and> activity s1 = None \<and> status s1 = None
        \<and> length (trace s1) = 1)
   \<and> (\<exists>e. update_presence UNSET UNSET UNSET (Given IDLE) example_connected
            = (Inl e, example_connected))"
proof
  obtain s1 where r: "update_presence UNSET (Given True) UNSET UNSET example_connected = (Inr (), s1)"
    using update_presence_example_returns by blast
  from update_presence_atomic[of UNSET "Given True" UNSET UNSET example_connected] r
  have "idle_since s1 = idle_since example_connected \<and> is_afk s1 = Some True
      \<and> activity s1 = activity example_connected \<and> status s1 = status example_connected
      \<and> (\<exists>payload. trace s1 = trace example_connected @ [SendStr (JObj [(''op'', JInt 3), (''d'', payload)])])"
    by simp
  then have "idle_since s1 = None \<and> is_afk s1 = Some True \<and> activity s1 = None \<and> status s1 = None
      \<and> length (trace s1) = 1"
    by (auto simp: example_connected_def example_gateway_def init_def)
  with r show "\<exists>s1. update_presence UNSET (Given True) UNSET UNSET example_connected = (Inr (), s1)
        \<and> idle_since s1 = None \<and> is_afk s1 = Some True \<and> activity s1 = None \<and> status s1 = None
        \<and> length (trace s1) = 1"
    by blast
next
  obtain e s1 where r: "update_presence UNSET UNSET UNSET (Given IDLE) example_connected = (Inl e, s1)"
    using update_presence_example_raises by blast
  from update_presence_atomic[of UNSET UNSET UNSET "Given IDLE" example_connected] r
  have "s1 = example_connected" by blast
  with r show "\<exists>e. update_presence UNSET UNSET UNSET (Given IDLE) example_connected
            = (Inl e, example_connected)"
    by blast
qed

section \<open>The handshake\<close>

lemma build_presence_payload_stored:
  "\<exists>payload. build_presence_payload s UNSET UNSET UNSET UNSET = Inr payload"
  by (simp add: build_presence_payload_def stored_status_def stored_activity_def
           split: option.splits)

text \<open>
  C1: when the handshake receives a payload with opcode 10 whose heartbeat interval
  can be divided by 1000, and the websocket is open, the handshake returns and has
  sent exactly one frame after that payload. Receiving did not change the session
  id, the sequence number or the token. If the stored session id is present, the frame
  is RESUME (opcode 6) with the token, the stored sequence number and that session id;
  if it is absent, the frame has opcode 2, IDENTIFY.
\<close>

theorem handshake_first_frame:
  assumes "receive_json_payload ext sch s = (Inr message, sch1, s0)"
    and "getitem message ''op'' = Inr op" and "py_eq_int op 10"
    and "getitem message ''d'' = Inr d"
    and "getitem d ''heartbeat_interval'' = Inr millis"
    and "py_div_1000 ext millis = Inr secs"
    and "ws s0 = Some (WebSocket False)"
  shows "\<exists>frame s1.
           handshake ext sch s = (Inr (), sch1, s1)
         \<and> trace s1 = trace s0 @ [SendStr frame]
         \<and> session_id s0 = session_id s \<and> seq s0 = seq s \<and> token s0 = token s
         \<and> (if session_id s \<noteq> JNull
              then frame = JObj [(''op'', JInt 6),
                                 (''d'', JObj [(''token'', JStr (token s)), (''seq'', seq s),
                                               (''session_id'', session_id s)])]
              else getitem frame ''op'' = Inr (JInt 2))"
proof -
  have same: "session_id s0 = session_id s \<and> seq s0 = seq s \<and> token s0 = token s"
    using receive_json_payload_same[OF assms(1)] by (simp add: same_session_def)
  show ?thesis
  proof (cases "session_id s0 = JNull")
    case False
    with assms same show ?thesis
      by (simp add: handshake_def send_json_def HELLO_def RESUME_def Let_def)
  next
    case True
    obtain payload where p: "build_presence_payload (s0\<lparr>heartbeat_interval := Some secs\<rparr>)
        UNSET UNSET UNSET UNSET = Inr payload"
      using build_presence_payload_stored by blast
    from True assms same p show ?thesis
      by (cases "intents s0")
         (simp_all add: handshake_def send_json_def HELLO_def IDENTIFY_def Let_def)
  qed
qed

text \<open>
  Conversely, the handshake returns only after a payload with opcode 10, and then the
  frame it sent is the one above.
\<close>

lemma handshake_returned_after_hello:
  assumes "handshake ext sch s = (Inr (), sch1, s1)"
  shows "\<exists>message s0.
           receive_json_payload ext sch s = (Inr message, sch1, s0)
         \<and> (\<exists>op. getitem message ''op'' = Inr op \<and> py_eq_int op 10)
         \<and> session_id s0 = session_id s \<and> seq s0 = seq s \<and> token s0 = token s
         \<and> (\<exists>frame. trace s1 = trace s0 @ [SendStr frame]
              \<and> (if session_id s \<noteq> JNull
                  then frame = JObj [(''op'', JInt 6),
                                     (''d'', JObj [(''token'', JStr (token s)), (''seq'', seq s),
                                                   (''session_id'', session_id s)])]
                  else getitem frame ''op'' = Inr (JInt 2)))"
proof -
  obtain r0 sch0 s0 where rj: "receive_json_payload ext sch s = (r0, sch0, s0)"
    by (cases "receive_json_payload ext sch s") auto
  from assms rj obtain message where m: "r0 = Inr message"
    by (cases r0) (auto simp: handshake_def)
  have same: "session_id s0 = session_id s \<and> seq s0 = seq s \<and> token s0 = token s"
    using receive_json_payload_same[OF rj] by (simp add: same_session_def)
  from assms rj m obtain op where op: "getitem message ''op'' = Inr op" "py_eq_int op HELLO"
    by (auto simp: handshake_def split: sum.splits if_splits)
  from assms rj m op obtain d millis secs where
    d: "getitem message ''d'' = Inr d" "getitem d ''heartbeat_interval'' = Inr millis"
       "py_div_1000 ext millis = Inr secs"
    by (auto simp: handshake_def split: sum.splits if_splits)
  have sch: "sch0 = sch1"
    using assms rj m op d
    by (auto simp: handshake_def Let_def split: sum.splits if_splits prod.splits option.splits)
  have frame: "\<exists>frame. trace s1 = trace s0 @ [SendStr frame]
              \<and> (if session_id s0 \<noteq> JNull
                  then frame = JObj [(''op'', JInt 6),
                                     (''d'', JObj [(''token'', JStr (token s0)), (''seq'', seq s0),
                                                   (''session_id'', session_id s0)])]
                  else getitem frame ''op'' = Inr (JInt 2))"
  proof (cases "session_id s0 = JNull")
    case False
    with assms rj m op d show ?thesis
      by (auto simp: handshake_def Let_def RESUME_def split: prod.splits dest!: send_json_cases)
  next
    case True
    with assms rj m op d show ?thesis
      by (auto simp: handshake_def Let_def IDENTIFY_def
               split: prod.splits if_splits sum.splits option.splits dest!: send_json_cases)
  qed
  show ?thesis
    using rj m op same frame sch by (auto simp: HELLO_def)
qed

lemma receive_example_hello:
  "\<exists>s0. receive_json_payload example_externals [Deliver (TEXT hello_text)] example_resumable
          = (Inr (JObj [(''op'', JInt 10), (''d'', JObj [(''heartbeat_interval'', JInt 45000)])]), [], s0)
        \<and> ws s0 = Some (WebSocket False) \<and> trace s0 = []"
  by (simp add: receive_json_payload_def receive_raw_def now_def loads_def
        example_resumable_def example_connected_def example_gateway_def init_def
        example_externals_def example_loads_simps)

lemma receive_example_hello_fresh:
  "\<exists>s0. receive_json_payload example_externals [Deliver (TEXT hello_text)] example_connected
          = (Inr (JObj [(''op'', JInt 10), (''d'', JObj [(''heartbeat_interval'', JInt 45000)])]), [], s0)
        \<and> ws s0 = Some (WebSocket False) \<and> trace s0 = []"
  by (simp add: receive_json_payload_def receive_raw_def now_def loads_def
        example_connected_def example_gateway_def init_def
        example_externals_def example_loads_simps)

theorem handshake_first_frame_witness:
  "(\<exists>s1. handshake example_externals [Deliver (TEXT hello_text)] example_resumable = (Inr (), [], s1)
      \<and> trace s1 = [SendStr (JObj [(''op'', JInt 6),
                                    (''d'', JObj [(''token'', JStr ''token''), (''seq'', JInt 7),
                                                  (''session_id'', JStr ''abc'')])])])
   \<and> (\<exists>s1 frame. handshake example_externals [Deliver (TEXT hello_text)] example_connected
                     = (Inr (), [], s1)
      \<and> trace s1 = [SendStr frame] \<and> getitem frame ''op'' = Inr (JInt 2))"
proof
  obtain s0 where r: "receive_json_payload example_externals [Deliver (TEXT hello_text)] example_resumable
          = (Inr (JObj [(''op'', JInt 10), (''d'', JObj [(''heartbeat_interval'', JInt 45000)])]), [], s0)"
     and w: "ws s0 = Some (WebSocket False)" and t: "trace s0 = []"
    using receive_example_hello by blast
  have op: "getitem (JObj [(''op'', JInt 10), (''d'', JObj [(''heartbeat_interval'', JInt 45000)])]) ''op''
      = Inr (JInt 10)" "py_eq_int (JInt 10) 10"
    and d: "getitem (JObj [(''op'', JInt 10), (''d'', JObj [(''heartbeat_interval'', JInt 45000)])]) ''d''
      = Inr (JObj [(''heartbeat_interval'', JInt 45000)])"
      "getitem (JObj [(''heartbeat_interval'', JInt 45000)]) ''heartbeat_interval'' = Inr (JInt 45000)"
    and secs: "py_div_1000 example_externals (JInt 45000) = Inr 45"
    by (simp_all add: example_externals_def)
  have id: "session_id example_resumable = JStr ''abc''" "seq example_resumable = JInt 7"
     "token example_resumable = ''token''"
    by (simp_all add: example_resumable_def example_connected_def example_gateway_def init_def)
  from handshake_first_frame[OF r op d secs w] t id
  show "\<exists>s1. handshake example_externals [Deliver (TEXT hello_text)] example_resumable = (Inr (), [], s1)
      \<and> trace s1 = [SendStr (JObj [(''op'', JInt 6),
                                    (''d'', JObj [(''token'', JStr ''token''), (''seq'', JInt 7),
                                                  (''session_id'', JStr ''abc'')])])]"
    by auto
next
  obtain s0 where r: "receive_json_payload example_externals [Deliver (TEXT hello_text)] example_connected
          = (Inr (JObj [(''op'', JInt 10), (''d'', JObj [(''heartbeat_interval'', JInt 45000)])]), [], s0)"
     and w: "ws s0 = Some (WebSocket False)" and t: "trace s0 = []"
    using receive_example_hello_fresh by blast
  have op: "getitem (JObj [(''op'', JInt 10), (''d'', JObj [(''heartbeat_interval'', JInt 45000)])]) ''op''
      = Inr (JInt 10)" "py_eq_int (JInt 10) 10"
    and d: "getitem (JObj [(''op'', JInt 10), (''d'', JObj [(''heartbeat_interval'', JInt 45000)])]) ''d''
      = Inr (JObj [(''heartbeat_interval'', JInt 45000)])"
      "getitem (JObj [(''heartbeat_interval'', JInt 45000)]) ''heartbeat_interval'' = Inr (JInt 45000)"
    and secs: "py_div_1000 example_externals (JInt 45000) = Inr 45"
    by (simp_all add: example_externals_def)
  have id: "session_id example_connected = JNull"
    by (simp add: example_connected_def example_gateway_def init_def)
  from handshake_first_frame[OF r op d secs w] t id
  show "\<exists>s1 frame. handshake example_externals [Deliver (TEXT hello_text)] example_connected
                     = (Inr (), [], s1)
      \<and> trace s1 = [SendStr frame] \<and> getitem frame ''op'' = Inr (JInt 2)"
    by auto
qed

text \<open>
  An interval too large for a float makes the division raise, and nothing is sent.
\<close>

lemma handshake_interval_overflow:
  assumes "receive_json_payload ext sch s = (Inr message, sch1, s0)"
    and "getitem message ''op'' = Inr (JInt 10)"
    and "getitem message ''d'' = Inr d"
    and "getitem d ''heartbeat_interval'' = Inr (JInt i)"
    and "int_to_float ext i = None"
  shows "handshake ext sch s = (Inl OverflowError, sch1, s0)"
  using assms by (simp add: handshake_def HELLO_def)

section \<open>Invalid sessions\<close>

lemma run_once_try_connected:
  assumes "run_once_try ext Connected sch s = (r, sch1, s1)"
  shows "connected_at s1 \<noteq> None \<and> ws s1 \<noteq> None"
proof -
  obtain t s0 where n: "now ext (s\<lparr>ws := Some (WebSocket False)\<rparr>) = (t, s0)"
    by (cases "now ext (s\<lparr>ws := Some (WebSocket False)\<rparr>)")
  let ?s = "s0\<lparr>connected_at := Some t, zlib := [], handshake_event := False, request_close_event := False\<rparr>"
  have ws0: "ws ?s \<noteq> None" "connected_at ?s \<noteq> None"
    using n by (auto simp: now_def)
  obtain rh schh sh where h: "handshake ext sch ?s = (rh, schh, sh)"
    by (cases "handshake ext sch ?s") auto
  have ch: "connected_at sh \<noteq> None \<and> ws sh \<noteq> None"
    using handshake_same_connection[OF h] ws0 by (simp add: same_connection_def)
  show ?thesis
  proof (cases rh)
    case (Inl e)
    with assms n h ch show ?thesis by (simp add: run_once_try_def)
  next
    case (Inr u)
    let ?p = "(dispatch (JStr ''CONNECTED'') (JObj []) sh)\<lparr>heartbeat_task := True\<rparr>"
    obtain rp schp sp where p: "poll_events ext schh ?p = (rp, schp, sp)"
      by (cases "poll_events ext schh ?p") auto
    have "connected_at sp \<noteq> None \<and> ws sp \<noteq> None"
      using poll_events_same_connection[OF p] ch by (simp add: same_connection_def dispatch_def)
    with assms n h Inr p show ?thesis
      by (cases rp) (auto simp: run_once_try_def)
  qed
qed


lemma run_once_except_connected_at:
  "run_once_except r s = (r2, s2) \<Longrightarrow> connected_at s2 = connected_at s"
  by (induction r s rule: run_once_except.induct)
     (auto simp: close_ws_def split: option.splits if_splits)

lemma run_once_finally_connected_at: "connected_at (run_once_finally s) = None"
  by (simp add: run_once_finally_def)





section \<open>The end of an attempt\<close>

lemma run_once_backoff_effects:
  "connected_at (run_once_backoff ext cb s) = connected_at s
   \<and> (\<exists>new. trace (run_once_backoff ext cb s) = trace s @ new \<and> (\<forall>ev d. Dispatch ev d \<notin> set new))"
  by (auto simp: run_once_backoff_def now_def close_def close_ws_def Let_def
           split: option.splits prod.splits bool.splits)

lemma run_once_except_trace:
  "run_once_except r s = (r2, s2) \<Longrightarrow>
     \<exists>new. trace s2 = trace s @ new \<and> (\<forall>ev d. Dispatch ev d \<notin> set new)"
  by (induction r s rule: run_once_except.induct)
     (auto simp: close_ws_def split: option.splits if_splits)

text \<open>
  C9, as the code has it: after every attempt \<open>connected_at\<close> is absent. If the
  websocket was created in the attempt, the last effect of the attempt is the dispatch
  of DISCONNECTED. If it was not created, and \<open>connected_at\<close> was absent when the
  attempt began, the attempt dispatches nothing. So an attempt that dispatched
  CONNECTED ends with DISCONNECTED; the converse is not claimed.
\<close>

theorem run_once_disconnected:
  assumes "run_once ext connect closed_during_backoff sch s = (r, sch1, s1)"
  shows "connected_at s1 = None
     \<and> (connect = Connected \<longrightarrow>
          trace s1 \<noteq> [] \<and> last (trace s1) = Dispatch (JStr ''DISCONNECTED'') (JObj []))
     \<and> (connect \<noteq> Connected \<and> connected_at s = None \<longrightarrow>
          (\<exists>new. trace s1 = trace s @ new \<and> (\<forall>ev d. Dispatch ev d \<notin> set new)))
     \<and> (\<forall>new. connected_at s = None \<and> trace s1 = trace s @ new
              \<and> Dispatch (JStr ''CONNECTED'') (JObj []) \<in> set new \<longrightarrow>
          last (trace s1) = Dispatch (JStr ''DISCONNECTED'') (JObj []))"
proof -
  let ?b = "run_once_backoff ext closed_during_backoff s"
  obtain rt scht st where t: "run_once_try ext connect sch ?b = (rt, scht, st)"
    by (cases "run_once_try ext connect sch ?b") auto
  obtain re se where e: "run_once_except rt st = (re, se)"
    by (cases "run_once_except rt st")
  have s1: "s1 = run_once_finally se"
    using assms t e by (simp add: run_once_def)
  have a: "connected_at s1 = None"
    by (simp add: s1 run_once_finally_connected_at)
  have b: "trace s1 \<noteq> [] \<and> last (trace s1) = Dispatch (JStr ''DISCONNECTED'') (JObj [])"
    if "connect = Connected"
  proof -
    from that t run_once_try_connected have "connected_at st \<noteq> None" by blast
    with run_once_except_connected_at[OF e] have "connected_at se \<noteq> None" by simp
    then show ?thesis
      by (simp add: s1 run_once_finally_def isnan_def dispatch_def)
  qed
  have c: "\<exists>new. trace s1 = trace s @ new \<and> (\<forall>ev d. Dispatch ev d \<notin> set new)"
    if "connect \<noteq> Connected" "connected_at s = None"
  proof -
    from that(1) t have st: "st = ?b"
      by (cases connect) (auto simp: run_once_try_def)
    from run_once_backoff_effects[of ext closed_during_backoff s] that(2)
    obtain new1 where n1: "trace ?b = trace s @ new1" "\<forall>ev d. Dispatch ev d \<notin> set new1"
      and cb: "connected_at ?b = None"
      by auto
    from run_once_except_trace[OF e] obtain new2 where
      n2: "trace se = trace st @ new2" "\<forall>ev d. Dispatch ev d \<notin> set new2"
      by blast
    from run_once_except_connected_at[OF e] st cb have "connected_at se = None" by simp
    then have "trace s1 = trace se"
      by (simp add: s1 run_once_finally_def isnan_def)
    with n1 n2 st have "trace s1 = trace s @ (new1 @ new2)" by simp
    moreover from n1 n2 have "\<forall>ev d. Dispatch ev d \<notin> set (new1 @ new2)" by simp
    ultimately show ?thesis by blast
  qed
  have d: "last (trace s1) = Dispatch (JStr ''DISCONNECTED'') (JObj [])"
    if "connected_at s = None \<and> trace s1 = trace s @ new
        \<and> Dispatch (JStr ''CONNECTED'') (JObj []) \<in> set new" for new
  proof (cases "connect = Connected")
    case True
    with b show ?thesis by simp
  next
    case False
    from that have n: "connected_at s = None" "trace s1 = trace s @ new"
        "Dispatch (JStr ''CONNECTED'') (JObj []) \<in> set new"
      by simp_all
    from c[OF False n(1)] obtain new' where
      n': "trace s1 = trace s @ new'" "\<forall>ev d. Dispatch ev d \<notin> set new'"
      by blast
    from n(2) n'(1) have "new' = new" by simp
    with n(3) n'(2) have False by blast
    then show ?thesis ..
  qed
  from a b c d show ?thesis by blast
qed

lemma run_once_example_reconnect:
  "\<exists>r sch1 s1. run_once example_externals Connected False
        [Deliver (TEXT hello_text), Deliver (TEXT reconnect_text)] example_gateway = (r, sch1, s1)
      \<and> (\<exists>new. trace s1 = trace example_gateway @ new
             \<and> Dispatch (JStr ''CONNECTED'') (JObj []) \<in> set new)"
  by (simp add: run_once_def run_once_try_def run_once_backoff_def handshake_def poll_events.simps
        poll_handle_def receive_json_payload_def receive_raw_def now_def loads_def
        run_once_finally_def isnan_def close_ws_def
        example_gateway_def init_def flt_def fsub_def
        example_externals_def example_loads_simps opcode_defs send_json_def dispatch_def Let_def)

theorem run_once_disconnected_witness:
  "(\<exists>r sch1 s1. run_once example_externals Connected False
        [Deliver (TEXT hello_text), Deliver (TEXT reconnect_text)] example_gateway = (r, sch1, s1)
      \<and> connected_at s1 = None
      \<and> Dispatch (JStr ''CONNECTED'') (JObj []) \<in> set (trace s1)
      \<and> last (trace s1) = Dispatch (JStr ''DISCONNECTED'') (JObj []))
   \<and> (\<exists>r sch1 s1. run_once example_externals NoConnection False [] example_gateway = (r, sch1, s1)
      \<and> connected_at s1 = None
      \<and> (\<forall>ev d. Dispatch ev d \<notin> set (trace s1)))"
proof
  have none: "connected_at example_gateway = None" "trace example_gateway = []"
    by (simp_all add: example_gateway_def init_def)
  obtain r sch1 s1 new where
    run: "run_once example_externals Connected False
        [Deliver (TEXT hello_text), Deliver (TEXT reconnect_text)] example_gateway = (r, sch1, s1)"
    and new: "trace s1 = trace example_gateway @ new" "Dispatch (JStr ''CONNECTED'') (JObj []) \<in> set new"
    using run_once_example_reconnect by blast
  from run_once_disconnected[OF run] none new
  have "connected_at s1 = None \<and> last (trace s1) = Dispatch (JStr ''DISCONNECTED'') (JObj [])"
    by blast
  moreover from new none have "Dispatch (JStr ''CONNECTED'') (JObj []) \<in> set (trace s1)" by simp
  ultimately show "\<exists>r sch1 s1. run_once example_externals Connected False
        [Deliver (TEXT hello_text), Deliver (TEXT reconnect_text)] example_gateway = (r, sch1, s1)
      \<and> connected_at s1 = None
      \<and> Dispatch (JStr ''CONNECTED'') (JObj []) \<in> set (trace s1)
      \<and> last (trace s1) = Dispatch (JStr ''DISCONNECTED'') (JObj [])"
    using run by blast
next
  have none: "connected_at example_gateway = None" "trace example_gateway = []"
    by (simp_all add: example_gateway_def init_def)
  obtain r sch1 s1 where
    run: "run_once example_externals NoConnection False [] example_gateway = (r, sch1, s1)"
    by (cases "run_once example_externals NoConnection False [] example_gateway") auto
  from run_once_disconnected[OF run] none
  have "connected_at s1 = None \<and> (\<forall>ev d. Dispatch ev d \<notin> set (trace s1))"
    by auto
  with run show "\<exists>r sch1 s1. run_once example_externals NoConnection False [] example_gateway = (r, sch1, s1)
      \<and> connected_at s1 = None
      \<and> (\<forall>ev d. Dispatch ev d \<notin> set (trace s1))"
    by blast
qed

text \<open>
  C9 as the specification states it fails when the handshake fails: the websocket is
  created, the first frame received says that the socket is closed, CONNECTED is never
  dispatched, and DISCONNECTED is.
\<close>

theorem disconnected_without_connected:
  "run_once example_externals Connected False [Deliver CLOSED] example_gateway =
     (Inr True, [],
      example_gateway\<lparr>ticks := 4, last_run_started_at := Some 1, ws := Some (WebSocket False),
        last_message_received := Some 3,
        trace := [Dispatch (JStr ''DISCONNECTED'') (JObj [])]\<rparr>)"
  by (simp add: run_once_def run_once_try_def run_once_backoff_def handshake_def
        receive_json_payload_def receive_raw_def now_def run_once_finally_def isnan_def
        example_gateway_def init_def flt_def fsub_def
        example_externals_def dispatch_def Let_def)

section \<open>Backoff\<close>

lemma keep_alive_backoff_journal:
  "journal (snd (snd (keep_alive_backoff ext l c))) = journal c
   \<or> (journal (snd (snd (keep_alive_backoff ext l c))) = journal c @ [SleepBackoff (back_off l)]
       \<and> \<not> do_not_back_off l
       \<and> float_sub ext (perf_counter ext (clock_ticks c)) (last_start l) < 30)"
  by (auto simp: keep_alive_backoff_def Let_def split: prod.splits bool.splits)

lemma keep_alive_backoff_suppressed:
  "do_not_back_off l \<Longrightarrow> journal (snd (snd (keep_alive_backoff ext l c))) = journal c"
  using keep_alive_backoff_journal[of ext l c] by auto

lemma run_once_backoff_trace:
  "trace (run_once_backoff ext cb s) = trace s
   \<or> ((\<exists>rest. trace (run_once_backoff ext cb s) = trace s @ BackoffSleep (backoff s) # rest)
       \<and> (\<exists>started. last_run_started_at s = Some started
              \<and> float_sub ext (perf_counter ext (ticks s)) started < 30))"
  by (auto simp: run_once_backoff_def now_def flt_def fsub_def close_def close_ws_def Let_def
           split: option.splits prod.splits bool.splits)

text \<open>
  C5, as the code has it. In the supervisor of \<^verbatim>\<open>shards.py\<close>: the first attempt is not
  preceded by a backoff sleep; the attempt after one that ended with an invalid session
  or a reconnect directive is not preceded by one; and a backoff sleep is taken only if
  the float difference of the clock and the start of the previous attempt is less than
  30. In \<^verbatim>\<open>_run_once\<close>: the first attempt has no backoff sleep, and a backoff sleep is
  taken only if that difference is less than 30.
\<close>

theorem backoff_suppression:
  "(\<exists>new. journal (snd (keep_alive ext [a] c)) = journal c @ new \<and> (\<forall>k. SleepBackoff k \<notin> set new))
   \<and> (\<forall>l1 c1. keep_alive_iteration ext a l c = (Again, l1, c1)
          \<and> (attempt_exception a = Some GatewayMustReconnectError
              \<or> (\<exists>can_resume. attempt_exception a = Some (GatewayInvalidSessionError can_resume)))
        \<longrightarrow> journal (snd (snd (keep_alive_backoff ext l1 c1))) = journal c1)
   \<and> (journal (snd (snd (keep_alive_backoff ext l c))) \<noteq> journal c \<longrightarrow>
        \<not> do_not_back_off l
        \<and> float_sub ext (perf_counter ext (clock_ticks c)) (last_start l) < 30)
   \<and> (last_run_started_at s = None \<longrightarrow> trace (run_once_backoff ext closed_during_backoff s) = trace s)
   \<and> (trace (run_once_backoff ext closed_during_backoff s) \<noteq> trace s \<longrightarrow>
        (\<exists>started. last_run_started_at s = Some started
                 \<and> float_sub ext (perf_counter ext (ticks s)) started < 30))"
proof (intro conjI)
  show "\<exists>new. journal (snd (keep_alive ext [a] c)) = journal c @ new \<and> (\<forall>k. SleepBackoff k \<notin> set new)"
  proof (cases "attempt_exception a")
    case None
    then show ?thesis
      by (auto simp: keep_alive_def keep_alive_iteration_def keep_alive_backoff_def
            keep_alive_connect_def Let_def)
  next
    case (Some e)
    then show ?thesis
      by (cases e)
         (auto simp: keep_alive_def keep_alive_iteration_def keep_alive_backoff_def
            keep_alive_connect_def Let_def)
  qed
next
  show "\<forall>l1 c1. keep_alive_iteration ext a l c = (Again, l1, c1)
          \<and> (attempt_exception a = Some GatewayMustReconnectError
              \<or> (\<exists>can_resume. attempt_exception a = Some (GatewayInvalidSessionError can_resume)))
        \<longrightarrow> journal (snd (snd (keep_alive_backoff ext l1 c1))) = journal c1"
  proof (intro allI impI)
    fix l1 c1
    assume h: "keep_alive_iteration ext a l c = (Again, l1, c1)
          \<and> (attempt_exception a = Some GatewayMustReconnectError
              \<or> (\<exists>can_resume. attempt_exception a = Some (GatewayInvalidSessionError can_resume)))"
    obtain r0 l0 c0 where b: "keep_alive_backoff ext l c = (r0, l0, c0)"
      by (cases "keep_alive_backoff ext l c") auto
    have "do_not_back_off l1"
    proof (cases r0)
      case None
      with h b show ?thesis
        by (auto simp: keep_alive_iteration_def keep_alive_connect_def)
    next
      case (Some e)
      with b have "e = TimeoutError"
        by (auto simp: keep_alive_backoff_def Let_def
                 split: if_splits prod.splits bool.splits option.splits)
      with h b Some show ?thesis
        by (simp add: keep_alive_iteration_def)
    qed
    then show "journal (snd (snd (keep_alive_backoff ext l1 c1))) = journal c1"
      by (rule keep_alive_backoff_suppressed)
  qed
next
  show "journal (snd (snd (keep_alive_backoff ext l c))) \<noteq> journal c \<longrightarrow>
        \<not> do_not_back_off l
        \<and> float_sub ext (perf_counter ext (clock_ticks c)) (last_start l) < 30"
    using keep_alive_backoff_journal[of ext l c] by auto
next
  show "last_run_started_at s = None \<longrightarrow> trace (run_once_backoff ext closed_during_backoff s) = trace s"
    using run_once_backoff_trace[of ext closed_during_backoff s] by auto
next
  show "trace (run_once_backoff ext closed_during_backoff s) \<noteq> trace s \<longrightarrow>
        (\<exists>started. last_run_started_at s = Some started
                 \<and> float_sub ext (perf_counter ext (ticks s)) started < 30)"
    using run_once_backoff_trace[of ext closed_during_backoff s] by auto
qed

theorem backoff_suppression_witness:
  "(\<exists>l1 c1. keep_alive_iteration frozen_clock_externals
        \<lparr>spin_up = None, reconnect_count = 0, connect_task = Some GatewayMustReconnectError\<rparr>
        \<lparr>back_off = 0, last_start = 0, do_not_back_off = False\<rparr> example_shard_client = (Again, l1, c1)
      \<and> journal (snd (snd (keep_alive_backoff frozen_clock_externals l1 c1))) = journal c1)
   \<and> (journal (snd (snd (keep_alive_backoff frozen_clock_externals
                  \<lparr>back_off = 0, last_start = 0, do_not_back_off = False\<rparr> example_shard_client)))
         = [SleepBackoff 0]
       \<and> float_sub frozen_clock_externals
            (perf_counter frozen_clock_externals (clock_ticks example_shard_client)) 0 < 30)
   \<and> trace (run_once_backoff example_externals False example_gateway) = []
   \<and> (trace (run_once_backoff example_externals False
                (example_gateway\<lparr>last_run_started_at := Some 0\<rparr>)) = [BackoffSleep 0]
       \<and> (\<exists>started. last_run_started_at (example_gateway\<lparr>last_run_started_at := Some 0\<rparr>) = Some started
              \<and> float_sub example_externals
                   (perf_counter example_externals
                      (ticks (example_gateway\<lparr>last_run_started_at := Some 0\<rparr>))) started < 30))"
proof -
  let ?reconnect = "\<lparr>spin_up = None, reconnect_count = 0, connect_task = Some GatewayMustReconnectError\<rparr>"
  let ?unflagged = "\<lparr>back_off = 0, last_start = 0, do_not_back_off = False\<rparr>"
  let ?later = "example_gateway\<lparr>last_run_started_at := Some 0\<rparr>"
  note inst1 = backoff_suppression
    [where ext = frozen_clock_externals and a = ?reconnect and c = example_shard_client
       and l = ?unflagged and s = example_gateway and closed_during_backoff = False]
  note inst2 = backoff_suppression
    [where ext = example_externals and a = ?reconnect and c = example_shard_client
       and l = ?unflagged and s = example_gateway and closed_during_backoff = False]
  note inst3 = backoff_suppression
    [where ext = example_externals and a = ?reconnect and c = example_shard_client
       and l = ?unflagged and s = ?later and closed_during_backoff = False]
  obtain r l1 c1 where it:
    "keep_alive_iteration frozen_clock_externals ?reconnect ?unflagged example_shard_client = (r, l1, c1)"
    by (cases "keep_alive_iteration frozen_clock_externals ?reconnect ?unflagged example_shard_client")
       auto
  have r: "r = Again"
    using it
    by (simp add: keep_alive_iteration_def keep_alive_backoff_def keep_alive_connect_def
          attempt_exception_def frozen_clock_externals_def example_externals_def
          example_shard_client_def Let_def)
  have ex: "attempt_exception ?reconnect = Some GatewayMustReconnectError"
    by (simp add: attempt_exception_def)
  have a: "\<exists>l1 c1. keep_alive_iteration frozen_clock_externals ?reconnect ?unflagged
                     example_shard_client = (Again, l1, c1)
      \<and> journal (snd (snd (keep_alive_backoff frozen_clock_externals l1 c1))) = journal c1"
    using inst1 it r ex by blast
  have slept: "journal (snd (snd (keep_alive_backoff frozen_clock_externals ?unflagged
                   example_shard_client))) = [SleepBackoff 0]"
    by (simp add: keep_alive_backoff_def frozen_clock_externals_def example_externals_def
          example_shard_client_def Let_def)
  then have ne: "journal (snd (snd (keep_alive_backoff frozen_clock_externals ?unflagged
                   example_shard_client))) \<noteq> journal example_shard_client"
    by (simp add: example_shard_client_def)
  have b: "float_sub frozen_clock_externals
            (perf_counter frozen_clock_externals (clock_ticks example_shard_client)) 0 < 30"
    using inst1 ne by simp
  have first: "last_run_started_at example_gateway = None" "trace example_gateway = []"
    by (simp_all add: example_gateway_def init_def)
  have c: "trace (run_once_backoff example_externals False example_gateway) = []"
    using inst2 first by simp
  have slept': "trace (run_once_backoff example_externals False ?later) = [BackoffSleep 0]"
    by (simp add: run_once_backoff_def now_def flt_def fsub_def example_gateway_def init_def
          example_externals_def Let_def)
  then have ne': "trace (run_once_backoff example_externals False ?later) \<noteq> trace ?later"
    by (simp add: example_gateway_def init_def)
  have d: "\<exists>started. last_run_started_at ?later = Some started
              \<and> float_sub example_externals
                   (perf_counter example_externals (ticks ?later)) started < 30"
    using inst3 ne' by blast
  from a slept b c slept' d show ?thesis by blast
qed

text \<open>
  C5 as the specification states it fails in two places. After a close by the server
  with the reconnectable code 4000, the supervisor sleeps for a backoff delay before
  the next attempt. After a reconnect directive, and after an invalid session, the
  next attempt of \<^verbatim>\<open>_run_once\<close>, made within 30 seconds, sleeps for one as well.
\<close>

theorem backoff_after_server_close:
  "keep_alive frozen_clock_externals
      [\<lparr>spin_up = None, reconnect_count = 0,
        connect_task = Some (GatewayServerClosedConnectionError ''UNKNOWN_ERROR'' 4000 True False True)\<rparr>,
       \<lparr>spin_up = Some GatewayClientClosedError, reconnect_count = 0, connect_task = None\<rparr>]
      example_shard_client =
    (None, example_shard_client\<lparr>clock_ticks := 4, journal := [SleepBackoff 0]\<rparr>)
   \<and> BackoffSleep 0 \<in> set (trace (snd (snd
        (run example_externals [(Connected, False), (NoConnection, False)]
           [Deliver (TEXT hello_text), Deliver (TEXT reconnect_text)] example_gateway))))
   \<and> BackoffSleep 0 \<in> set (trace (snd (snd
        (run example_externals [(Connected, False), (NoConnection, False)]
           [Deliver (TEXT hello_text), Deliver (TEXT invalid_session_text)] example_gateway))))"
proof (intro conjI)
  show "keep_alive frozen_clock_externals
      [\<lparr>spin_up = None, reconnect_count = 0,
        connect_task = Some (GatewayServerClosedConnectionError ''UNKNOWN_ERROR'' 4000 True False True)\<rparr>,
       \<lparr>spin_up = Some GatewayClientClosedError, reconnect_count = 0, connect_task = None\<rparr>]
      example_shard_client =
    (None, example_shard_client\<lparr>clock_ticks := 4, journal := [SleepBackoff 0]\<rparr>)"
    by (simp add: keep_alive_def keep_alive_iteration_def keep_alive_backoff_def
          keep_alive_connect_def attempt_exception_def example_shard_client_def
          close_code_defs frozen_clock_externals_def example_externals_def Let_def)
next
  show "BackoffSleep 0 \<in> set (trace (snd (snd
        (run example_externals [(Connected, False), (NoConnection, False)]
           [Deliver (TEXT hello_text), Deliver (TEXT reconnect_text)] example_gateway))))"
    by (simp add: run_once_def run_once_try_def run_once_backoff_def handshake_def poll_events.simps
          poll_handle_def receive_json_payload_def receive_raw_def now_def loads_def
          run_once_finally_def isnan_def close_ws_def
          example_gateway_def init_def flt_def fsub_def
          example_externals_def example_loads_simps opcode_defs send_json_def dispatch_def Let_def)
next
  show "BackoffSleep 0 \<in> set (trace (snd (snd
        (run example_externals [(Connected, False), (NoConnection, False)]
           [Deliver (TEXT hello_text), Deliver (TEXT invalid_session_text)] example_gateway))))"
    by (simp add: run_once_def run_once_try_def run_once_backoff_def handshake_def poll_events.simps
          poll_handle_def receive_json_payload_def receive_raw_def now_def loads_def
          run_once_finally_def isnan_def close_ws_def
          example_gateway_def init_def flt_def fsub_def
          example_externals_def example_loads_simps opcode_defs send_json_def dispatch_def Let_def)
qed

text \<open>
  Where \<^verbatim>\<open>next\<close> on the back-off raises instead of returning a delay, \<^verbatim>\<open>_run_once\<close> goes on
  without sleeping, and the supervisor ends with the exception.
\<close>

lemma run_once_backoff_exhausted:
  assumes "last_run_started_at s = Some started"
    and "float_sub ext (perf_counter ext (ticks s)) started < 30"
    and "backoff_next ext (backoff s) = (False, b1)"
  shows "trace (run_once_backoff ext closed_during_backoff s) = trace s"
  using assms by (simp add: run_once_backoff_def now_def flt_def fsub_def)

lemma keep_alive_backoff_exhausted:
  assumes "\<not> do_not_back_off l"
    and "float_sub ext (perf_counter ext (clock_ticks c)) (last_start l) < 30"
    and "backoff_next ext (back_off l) = (False, b1)"
  shows "fst (keep_alive_iteration ext a l c) = Raise TimeoutError"
  using assms by (simp add: keep_alive_iteration_def keep_alive_backoff_def Let_def)

end
